theory Spec2Isabelle
  imports Complex_Main
begin

section \<open>The host platform: dates, numbers, strings\<close>

text \<open>
  The goal engine of \<^verbatim>\<open>src/context/GoalContext.tsx\<close> reads the wall clock through
  the platform's \<^verbatim>\<open>Date\<close>. A \<^verbatim>\<open>Date\<close> is held here by its local-time fields, named
  after the getters the source calls; months count from 0 as in the platform. The local
  zone is taken to have a fixed offset, so that two dates compare as their local
  readings do. Two-digit years, which the constructor would read as 19xx, are outside the
  model: the years come from the wall clock.
\<close>

record JSDate =
  getFullYear :: int
  getMonth :: nat
  getDate :: nat
  getHours :: nat
  getMinutes :: nat
  getSeconds :: nat
  getMilliseconds :: nat

definition is_leap_year :: "int \<Rightarrow> bool" where
  "is_leap_year y = (y mod 4 = 0 \<and> (y mod 100 \<noteq> 0 \<or> y mod 400 = 0))"

definition days_in_month :: "int \<Rightarrow> nat \<Rightarrow> nat" where
  "days_in_month y m =
     (if m = 1 then (if is_leap_year y then 29 else 28)
      else if m = 3 \<or> m = 5 \<or> m = 8 \<or> m = 10 then 30
      else 31)"

definition prev_month :: "int \<Rightarrow> nat \<Rightarrow> int \<times> nat" where
  "prev_month y m = (if m = 0 then (y - 1, 11) else (y, m - 1))"

definition next_month :: "int \<Rightarrow> nat \<Rightarrow> int \<times> nat" where
  "next_month y m = (if 11 \<le> m then (y + 1, 0) else (y, m + 1))"

text \<open>
  The constructor \<^verbatim>\<open>new Date(y, m, d, ...)\<close> accepts a month and a day outside their
  ranges and carries them over: month 12 is January of the next year, day 0 is the last
  day of the month before. \<open>roll_day\<close> carries the day, one month at a time.
\<close>

function roll_day :: "int \<Rightarrow> nat \<Rightarrow> int \<Rightarrow> int \<times> nat \<times> nat" where
  "roll_day y m d =
     (if d < 1 then
        roll_day (fst (prev_month y m)) (snd (prev_month y m))
          (d + int (days_in_month (fst (prev_month y m)) (snd (prev_month y m))))
      else if int (days_in_month y m) < d then
        roll_day (fst (next_month y m)) (snd (next_month y m)) (d - int (days_in_month y m))
      else (y, m, nat d))"
  by pat_completeness auto
termination
  by (relation "measure (\<lambda>(y, m, d). if d < 1 then nat (1 - d) + 32 else nat d)")
     (auto simp: days_in_month_def)

declare roll_day.simps [simp del]

text \<open>
  The time-of-day arguments are within their ranges at every call of the source
  (\<^verbatim>\<open>0, 0, 0, 0\<close> and \<^verbatim>\<open>23, 59, 59, 999\<close>, or left out), so they are stored as given.
\<close>

definition new_Date :: "int \<Rightarrow> int \<Rightarrow> int \<Rightarrow> nat \<Rightarrow> nat \<Rightarrow> nat \<Rightarrow> nat \<Rightarrow> JSDate" where
  "new_Date y mo d h mi s ms =
     (let r = roll_day (y + mo div 12) (nat (mo mod 12)) d
      in \<lparr>getFullYear = fst r, getMonth = fst (snd r), getDate = snd (snd r),
          getHours = h, getMinutes = mi, getSeconds = s, getMilliseconds = ms\<rparr>)"

text \<open>
  A reading of the clock is a date of the calendar: its month and its day are within
  their ranges.
\<close>

definition on_calendar :: "JSDate \<Rightarrow> bool" where
  "on_calendar d =
     (getMonth d < 12 \<and> 1 \<le> getDate d
      \<and> getDate d \<le> days_in_month (getFullYear d) (getMonth d))"

text \<open>
  The time value of a date, in milliseconds on the local time line: the day number of
  the calendar day (counted from 1 January 1970, as the platform's \<^verbatim>\<open>DayFromYear\<close>
  does) and the time within the day. Dates are compared through it.
\<close>

definition day_from_year :: "int \<Rightarrow> int" where
  "day_from_year y =
     365 * (y - 1970) + (y - 1969) div 4 - (y - 1901) div 100 + (y - 1601) div 400"

definition days_before_month :: "int \<Rightarrow> nat \<Rightarrow> int" where
  "days_before_month y m =
     (if m < 12
      then int ([0, 31, 59, 90, 120, 151, 181, 212, 243, 273, 304, 334] ! m)
             + (if 2 \<le> m \<and> is_leap_year y then 1 else 0)
      else 0)"

definition day_number :: "JSDate \<Rightarrow> int" where
  "day_number d =
     day_from_year (getFullYear d) + days_before_month (getFullYear d) (getMonth d)
       + int (getDate d) - 1"

definition getTime :: "JSDate \<Rightarrow> int" where
  "getTime d =
     day_number d * 86400000
       + int (((getHours d * 60 + getMinutes d) * 60 + getSeconds d) * 1000 + getMilliseconds d)"

definition getDay :: "JSDate \<Rightarrow> nat" where
  "getDay d = nat ((day_number d + 4) mod 7)"

text \<open>
  A date parsed from a string (\<^verbatim>\<open>new Date(g.period_start)\<close>) may be the invalid date,
  whose time value is NaN: every comparison with it is false, and so is every equality
  test on its getters.
\<close>

datatype parsed_date = InvalidDate | ValidDate JSDate

fun date_le :: "parsed_date \<Rightarrow> parsed_date \<Rightarrow> bool" where
  "date_le (ValidDate a) (ValidDate b) = (getTime a \<le> getTime b)"
| "date_le _ _ = False"

subsection \<open>Numbers to strings\<close>

definition digit :: "nat \<Rightarrow> char" where
  "digit n = ''0123456789'' ! (n mod 10)"

fun string_of_nat :: "nat \<Rightarrow> string" where
  "string_of_nat n =
     (if n < 10 then [digit n] else string_of_nat (n div 10) @ [digit (n mod 10)])"

declare string_of_nat.simps [simp del]

definition string_of_int :: "int \<Rightarrow> string" where
  "string_of_int i = (if i < 0 then ''-'' @ string_of_nat (nat (- i)) else string_of_nat (nat i))"

definition padStart :: "nat \<Rightarrow> char \<Rightarrow> string \<Rightarrow> string" where
  "padStart n c s = replicate (n - length s) c @ s"

definition day_name :: "nat \<Rightarrow> string" where
  "day_name n =
     (if n < 7 then [''Sun'', ''Mon'', ''Tue'', ''Wed'', ''Thu'', ''Fri'', ''Sat''] ! n else [])"

definition month_name :: "nat \<Rightarrow> string" where
  "month_name n =
     (if n < 12
      then [''Jan'', ''Feb'', ''Mar'', ''Apr'', ''May'', ''Jun'',
            ''Jul'', ''Aug'', ''Sep'', ''Oct'', ''Nov'', ''Dec''] ! n
      else [])"

text \<open>
  \<^verbatim>\<open>toDateString()\<close> gives the weekday, the month name, the day on two digits and the
  year on at least four, as in \<^verbatim>\<open>Sat Jun 01 2024\<close>.
\<close>

definition toDateString :: "JSDate \<Rightarrow> string" where
  "toDateString d =
     day_name (getDay d) @ '' '' @ month_name (getMonth d) @ '' ''
       @ padStart 2 (CHR ''0'') (string_of_nat (getDate d)) @ '' ''
       @ (if getFullYear d < 0 then ''-'' else [])
       @ padStart 4 (CHR ''0'') (string_of_nat (nat \<bar>getFullYear d\<bar>))"

text \<open>
  Amounts are the platform's numbers, taken here as exact rationals. A division by zero
  does not raise on the platform: it yields a non-finite number. The model makes that
  visible: a number that comes out of a division is an option, \<open>None\<close> being the
  non-finite result.
\<close>

definition js_divide :: "rat \<Rightarrow> rat \<Rightarrow> rat option" where
  "js_divide a b = (if b = 0 then None else Some (a / b))"

section \<open>The data of the goal engine\<close>

text \<open>
  The records hold the fields of \<^verbatim>\<open>SalesGoal\<close>, \<^verbatim>\<open>GoalProgress\<close> and
  \<^verbatim>\<open>GoalCelebration\<close> (declared in \<^verbatim>\<open>types/goals\<close>) that \<^verbatim>\<open>GoalContext.tsx\<close> reads
  and writes. A period bound is \<open>None\<close>
  when the field is missing or empty, and otherwise what \<^verbatim>\<open>new Date(...)\<close> makes of it.
\<close>

record SalesGoal =
  goal_id :: string
  goal_type :: string
  goal_name :: string
  target_amount :: rat
  period_start :: "parsed_date option"
  period_end :: "parsed_date option"

record GoalProgress =
  goal :: SalesGoal
  current_amount :: rat
  progress_percentage :: "rat option"
  is_achieved :: bool
  hours_remaining :: "int option"
  days_remaining :: "int option"

record GoalCelebration =
  goalType :: string
  goalAmount :: rat
  actualAmount :: rat
  goalName :: string
  achieved_at :: JSDate

record GoalState =
  dailyGoal :: "SalesGoal option"
  monthlyGoal :: "SalesGoal option"
  dailyProgress :: "GoalProgress option"
  monthlyProgress :: "GoalProgress option"
  loading :: bool
  error :: "string option"
  lastCelebration :: "GoalCelebration option"
  celebratedToday :: bool
  celebratedThisMonth :: bool

datatype GoalAction =
    SET_LOADING bool
  | SET_ERROR "string option"
  | SET_DAILY_GOAL "SalesGoal option"
  | SET_MONTHLY_GOAL "SalesGoal option"
  | SET_DAILY_PROGRESS "GoalProgress option"
  | SET_MONTHLY_PROGRESS "GoalProgress option"
  | SET_LAST_CELEBRATION "GoalCelebration option"
  | CLEAR_LAST_CELEBRATION
  | SET_CELEBRATED_TODAY bool
  | SET_CELEBRATED_THIS_MONTH bool

definition initialState :: GoalState where
  "initialState =
     \<lparr>dailyGoal = None, monthlyGoal = None, dailyProgress = None, monthlyProgress = None,
      loading = False, error = None, lastCelebration = None,
      celebratedToday = False, celebratedThisMonth = False\<rparr>"

fun goalReducer :: "GoalState \<Rightarrow> GoalAction \<Rightarrow> GoalState" where
  "goalReducer s (SET_LOADING b) = s\<lparr>loading := b\<rparr>"
| "goalReducer s (SET_ERROR e) = s\<lparr>error := e\<rparr>"
| "goalReducer s (SET_DAILY_GOAL g) = s\<lparr>dailyGoal := g\<rparr>"
| "goalReducer s (SET_MONTHLY_GOAL g) = s\<lparr>monthlyGoal := g\<rparr>"
| "goalReducer s (SET_DAILY_PROGRESS p) = s\<lparr>dailyProgress := p\<rparr>"
| "goalReducer s (SET_MONTHLY_PROGRESS p) = s\<lparr>monthlyProgress := p\<rparr>"
| "goalReducer s (SET_LAST_CELEBRATION c) = s\<lparr>lastCelebration := c\<rparr>"
| "goalReducer s CLEAR_LAST_CELEBRATION = s\<lparr>lastCelebration := None\<rparr>"
| "goalReducer s (SET_CELEBRATED_TODAY b) = s\<lparr>celebratedToday := b\<rparr>"
| "goalReducer s (SET_CELEBRATED_THIS_MONTH b) = s\<lparr>celebratedThisMonth := b\<rparr>"

subsection \<open>The collaborators\<close>

text \<open>
  The session (\<^verbatim>\<open>useAuth\<close>): a store identifier that is missing or empty is the empty
  string, which the source's \<^verbatim>\<open>!user.store_id\<close> rejects.
\<close>

record User =
  user_id :: string
  store_id :: string

record Auth =
  isAuthenticated :: bool
  user :: "User option"

datatype api_error = NetworkError | ServerError

text \<open>The argument of \<^verbatim>\<open>apiService.createGoal\<close>.\<close>

record CreateGoalRequest =
  req_goal_type :: string
  req_target_amount :: "rat option"
  req_period_start :: JSDate
  req_period_end :: JSDate
  req_is_active :: bool
  req_store_id :: string

text \<open>
  The argument of \<^verbatim>\<open>notificationManager.showNotification\<close>; of the title and the body
  the model keeps the wording in ASCII and the two amounts the body prints.
\<close>

record Notification =
  title :: string
  body_target :: rat
  body_current :: rat
  sound :: bool
  requireInteraction :: bool
  tag :: string

text \<open>
  \<^verbatim>\<open>localStorage\<close> maps keys to strings. A string is held with what \<^verbatim>\<open>JSON.parse\<close>
  makes of it: \<open>Text\<close> is a text that is no JSON, on which \<^verbatim>\<open>JSON.parse\<close> throws (the
  markers of the celebrations are such texts); \<open>NullJSON\<close> is the text \<^verbatim>\<open>null\<close>;
  \<open>GoalJSON\<close> is the JSON text of any other value, held by the fields the engine reads
  of it. That is what \<^verbatim>\<open>JSON.stringify\<close> gives for a goal; a value that has none of
  these fields, such as \<^verbatim>\<open>true\<close> or \<^verbatim>\<open>{}\<close>, reads as a goal whose every field is missing
  (\<open>no_fields\<close>).
\<close>

datatype cache_entry = Text string | NullJSON | GoalJSON SalesGoal


type_synonym Storage = "string \<Rightarrow> cache_entry option"

fun truthy :: "cache_entry option \<Rightarrow> bool" where
  "truthy None = False"
| "truthy (Some (Text s)) = (s \<noteq> [])"
| "truthy (Some NullJSON) = True"
| "truthy (Some (GoalJSON g)) = True"

text \<open>
  What an operation does to the outside is recorded, in order: the calls to the Goal
  Store, the Sales Metrics Source and the Notifier, the accesses to \<^verbatim>\<open>localStorage\<close>,
  and the actions dispatched to the reducer.
\<close>

datatype event =
    GetGoals string
  | CreateGoal CreateGoalRequest
  | GetDashboardAnalytics string string
  | ShowNotification Notification
  | CacheGet string
  | CacheSet string
  | CacheRemove string
  | Dispatch GoalAction

record world =
  state :: GoalState
  localStorage :: Storage
  events :: "event list"

definition emit :: "event \<Rightarrow> world \<Rightarrow> world" where
  "emit e w = w\<lparr>events := events w @ [e]\<rparr>"

definition dispatch :: "GoalAction \<Rightarrow> world \<Rightarrow> world" where
  "dispatch a w = emit (Dispatch a) (w\<lparr>state := goalReducer (state w) a\<rparr>)"

definition setItem :: "string \<Rightarrow> cache_entry \<Rightarrow> world \<Rightarrow> world" where
  "setItem k v w = emit (CacheSet k) (w\<lparr>localStorage := (localStorage w)(k \<mapsto> v)\<rparr>)"

definition removeItem :: "string \<Rightarrow> world \<Rightarrow> world" where
  "removeItem k w = emit (CacheRemove k) (w\<lparr>localStorage := (localStorage w)(k := None)\<rparr>)"

text \<open>What an operation has added to the record of events.\<close>

definition since :: "world \<Rightarrow> world \<Rightarrow> event list" where
  "since w w' = drop (length (events w)) (events w')"

fun is_create :: "string \<Rightarrow> event \<Rightarrow> bool" where
  "is_create ty (CreateGoal r) = (req_goal_type r = ty)"
| "is_create ty _ = False"


text \<open>An asynchronous operation resolves, or rejects with what was thrown in it.\<close>

datatype outcome = Resolved | Rejected

section \<open>Reconciliation: \<^verbatim>\<open>loadGoals\<close>\<close>

text \<open>
  The windows of the current day and of the current month, built as the source builds
  them; \<open>monthEnd\<close> is day 0 of the next month.
\<close>

definition todayStart :: "JSDate \<Rightarrow> JSDate" where
  "todayStart now = new_Date (getFullYear now) (int (getMonth now)) (int (getDate now)) 0 0 0 0"

definition todayEnd :: "JSDate \<Rightarrow> JSDate" where
  "todayEnd now =
     new_Date (getFullYear now) (int (getMonth now)) (int (getDate now)) 23 59 59 999"

definition monthStart :: "JSDate \<Rightarrow> JSDate" where
  "monthStart now = new_Date (getFullYear now) (int (getMonth now)) 1 0 0 0 0"

definition monthEnd :: "JSDate \<Rightarrow> JSDate" where
  "monthEnd now = new_Date (getFullYear now) (int (getMonth now) + 1) 0 23 59 59 999"

text \<open>
  The test of both \<^verbatim>\<open>find\<close> callbacks: a goal with both period bounds is valid when
  \<^verbatim>\<open>startDate <= windowEnd && endDate >= windowStart\<close>; a goal that lacks a bound is valid.
\<close>

definition isValid :: "SalesGoal \<Rightarrow> JSDate \<Rightarrow> JSDate \<Rightarrow> bool" where
  "isValid g windowStart windowEnd =
     (case period_start g of
        None \<Rightarrow> True
      | Some startDate \<Rightarrow>
          (case period_end g of
             None \<Rightarrow> True
           | Some endDate \<Rightarrow>
               date_le startDate (ValidDate windowEnd) \<and> date_le (ValidDate windowStart) endDate))"

definition find_dailyGoal :: "JSDate \<Rightarrow> SalesGoal list \<Rightarrow> SalesGoal option" where
  "find_dailyGoal now existingGoals =
     List.find (\<lambda>g. goal_type g = ''daily'' \<and> isValid g (todayStart now) (todayEnd now))
       existingGoals"

definition find_monthlyGoal :: "JSDate \<Rightarrow> SalesGoal list \<Rightarrow> SalesGoal option" where
  "find_monthlyGoal now existingGoals =
     List.find (\<lambda>g. goal_type g = ''monthly'' \<and> isValid g (monthStart now) (monthEnd now))
       existingGoals"

text \<open>Last month's goal: a monthly goal with both bounds whose start lies in the month before.\<close>

definition starts_in_month_of :: "SalesGoal \<Rightarrow> JSDate \<Rightarrow> bool" where
  "starts_in_month_of g lastMonth =
     (case period_start g of
        None \<Rightarrow> False
      | Some InvalidDate \<Rightarrow> False
      | Some (ValidDate start) \<Rightarrow>
          (case period_end g of
             None \<Rightarrow> False
           | Some e \<Rightarrow>
               getFullYear start = getFullYear lastMonth \<and> getMonth start = getMonth lastMonth))"

definition find_lastMonthly :: "JSDate \<Rightarrow> SalesGoal list \<Rightarrow> SalesGoal option" where
  "find_lastMonthly now existingGoals =
     (let lastMonth = new_Date (getFullYear now) (int (getMonth now) - 1) 1 0 0 0 0
      in List.find (\<lambda>g. goal_type g = ''monthly'' \<and> starts_in_month_of g lastMonth)
           existingGoals)"

text \<open>
  Step 1: the goals of the store, and the backup of \<^verbatim>\<open>localStorage\<close> when the call failed
  or gave no goal. What \<^verbatim>\<open>JSON.parse\<close> returns is pushed as it is, \<^verbatim>\<open>null\<close> included, the
  daily entry first. An entry that \<^verbatim>\<open>JSON.parse\<close> rejects ends the reading of the backup
  (the inner \<^verbatim>\<open>catch\<close>); what was pushed before stays.
\<close>

datatype json_value = ParsedNull | Parsed SalesGoal

definition goal_key :: "string \<Rightarrow> string \<Rightarrow> string" where
  "goal_key track sid = ''goal_'' @ track @ ''_'' @ sid"

fun pushed :: "cache_entry option \<Rightarrow> json_value list option" where
  "pushed None = Some []"
| "pushed (Some (Text s)) = (if s = [] then Some [] else None)"
| "pushed (Some NullJSON) = Some [ParsedNull]"
| "pushed (Some (GoalJSON g)) = Some [Parsed g]"

definition backup_values :: "string \<Rightarrow> Storage \<Rightarrow> json_value list" where
  "backup_values sid ls =
     (case pushed (ls (goal_key ''daily'' sid)) of
        None \<Rightarrow> []
      | Some ds \<Rightarrow>
          (case pushed (ls (goal_key ''monthly'' sid)) of
             None \<Rightarrow> ds
           | Some ms \<Rightarrow> ds @ ms))"

definition fetched :: "(api_error + SalesGoal list) \<Rightarrow> SalesGoal list" where
  "fetched getGoals = (case getGoals of Inl err \<Rightarrow> [] | Inr gs \<Rightarrow> gs)"

definition apiSuccess :: "(api_error + SalesGoal list) \<Rightarrow> bool" where
  "apiSuccess getGoals = (case getGoals of Inl err \<Rightarrow> False | Inr gs \<Rightarrow> True)"

definition reads_backup :: "(api_error + SalesGoal list) \<Rightarrow> bool" where
  "reads_backup getGoals = (\<not> apiSuccess getGoals \<or> length (fetched getGoals) = 0)"

definition existing_values ::
  "string \<Rightarrow> (api_error + SalesGoal list) \<Rightarrow> Storage \<Rightarrow> json_value list" where
  "existing_values sid getGoals ls =
     (if reads_backup getGoals then map Parsed (fetched getGoals) @ backup_values sid ls
      else map Parsed (fetched getGoals))"

definition load_existingGoals ::
  "string \<Rightarrow> (api_error + SalesGoal list) \<Rightarrow> world \<Rightarrow> json_value list \<times> world" where
  "load_existingGoals sid getGoals w =
     (let w1 = emit (GetGoals sid) w
      in (existing_values sid getGoals (localStorage w1),
          if reads_backup getGoals
          then emit (CacheGet (goal_key ''monthly'' sid))
                 (emit (CacheGet (goal_key ''daily'' sid)) w1)
          else w1))"

text \<open>
  Step 2 begins with a debug log that reads \<^verbatim>\<open>g.goal_type\<close> of every element of the list:
  on \<^verbatim>\<open>null\<close> that throws, into the outer \<^verbatim>\<open>catch\<close>. Otherwise the elements are read by
  their fields from there on.
\<close>

fun goals_among :: "json_value list \<Rightarrow> SalesGoal list" where
  "goals_among [] = []"
| "goals_among (ParsedNull # vs) = goals_among vs"
| "goals_among (Parsed g # vs) = g # goals_among vs"

definition existingGoals_of :: "string \<Rightarrow> (api_error + SalesGoal list) \<Rightarrow> Storage \<Rightarrow> SalesGoal list" where
  "existingGoals_of sid getGoals ls = goals_among (existing_values sid getGoals ls)"

text \<open>
  The carry-over of last month's monthly goal, on the first day of the month only; a
  failure of \<^verbatim>\<open>createGoal\<close> is caught and leaves the monthly goal unresolved.
\<close>

definition carry_request :: "string \<Rightarrow> JSDate \<Rightarrow> SalesGoal \<Rightarrow> CreateGoalRequest" where
  "carry_request sid now lastMonthly =
     \<lparr>req_goal_type = ''monthly'', req_target_amount = Some (target_amount lastMonthly),
      req_period_start = monthStart now, req_period_end = monthEnd now,
      req_is_active = True, req_store_id = sid\<rparr>"

definition carry_over ::
  "string \<Rightarrow> (CreateGoalRequest \<Rightarrow> api_error + SalesGoal) \<Rightarrow> JSDate \<Rightarrow> SalesGoal list
     \<Rightarrow> world \<Rightarrow> SalesGoal option \<times> world" where
  "carry_over sid createGoal now existingGoals w =
     (if getDate now = 1 then
        (case find_lastMonthly now existingGoals of
           None \<Rightarrow> (None, w)
         | Some lastMonthly \<Rightarrow>
             (case createGoal (carry_request sid now lastMonthly) of
                Inl err \<Rightarrow> (None, emit (CreateGoal (carry_request sid now lastMonthly)) w)
              | Inr created \<Rightarrow>
                  (Some created, emit (CreateGoal (carry_request sid now lastMonthly)) w)))
      else (None, w))"

text \<open>
  Step 5: the daily goal derived from the monthly one. The divisor is the number of days
  left in the month, today included, and at least 1.
\<close>

definition daysRemaining :: "JSDate \<Rightarrow> int" where
  "daysRemaining now =
     max 1 (int (getDate (new_Date (getFullYear now) (int (getMonth now) + 1) 0 0 0 0 0))
              - int (getDate now) + 1)"

definition suggestedDaily :: "JSDate \<Rightarrow> SalesGoal \<Rightarrow> rat option" where
  "suggestedDaily now monthly =
     map_option (\<lambda>q. of_int \<lceil>q\<rceil>) (js_divide (target_amount monthly) (of_int (daysRemaining now)))"

definition daily_request :: "string \<Rightarrow> JSDate \<Rightarrow> SalesGoal \<Rightarrow> CreateGoalRequest" where
  "daily_request sid now monthly =
     \<lparr>req_goal_type = ''daily'', req_target_amount = suggestedDaily now monthly,
      req_period_start = todayStart now, req_period_end = todayEnd now,
      req_is_active = True, req_store_id = sid\<rparr>"

definition save_backup :: "string \<Rightarrow> string \<Rightarrow> SalesGoal option \<Rightarrow> world \<Rightarrow> world" where
  "save_backup track sid g w =
     (case g of None \<Rightarrow> w | Some x \<Rightarrow> setItem (goal_key track sid) (GoalJSON x) w)"

text \<open>
  The whole operation. The goal that step 5 creates is held in a local variable only: it
  is neither dispatched nor saved in this cycle. When the debug log throws, the outer
  \<^verbatim>\<open>catch\<close> sets the error and \<^verbatim>\<open>finally\<close> ends the loading; nothing is resolved.
\<close>

definition loadGoals ::
  "Auth \<Rightarrow> (api_error + SalesGoal list) \<Rightarrow> (CreateGoalRequest \<Rightarrow> api_error + SalesGoal)
     \<Rightarrow> JSDate \<Rightarrow> world \<Rightarrow> world" where
  "loadGoals auth getGoals createGoal now w =
     (case user auth of
        None \<Rightarrow> w
      | Some u \<Rightarrow>
          if \<not> isAuthenticated auth then w
          else if store_id u = [] then w
          else
            (let w1 = dispatch (SET_LOADING True) w;
                 loaded = load_existingGoals (store_id u) getGoals w1
             in if ParsedNull \<in> set (fst loaded) then
                  dispatch (SET_LOADING False)
                    (dispatch (SET_ERROR (Some ''Failed to load goals'')) (snd loaded))
                else
            (let existingGoals = goals_among (fst loaded);
                 daily = find_dailyGoal now existingGoals;
                 carried =
                   (case find_monthlyGoal now existingGoals of
                      None \<Rightarrow> carry_over (store_id u) createGoal now existingGoals (snd loaded)
                    | Some m \<Rightarrow> (Some m, snd loaded));
                 monthly = fst carried;
                 w2 = save_backup ''monthly'' (store_id u) monthly
                        (save_backup ''daily'' (store_id u) daily (snd carried));
                 w3 = dispatch (SET_MONTHLY_GOAL monthly) (dispatch (SET_DAILY_GOAL daily) w2);
                 w4 = (case daily of
                         Some d \<Rightarrow> w3
                       | None \<Rightarrow>
                           (case monthly of
                              None \<Rightarrow> w3
                            | Some m \<Rightarrow> emit (CreateGoal (daily_request (store_id u) now m)) w3))
             in dispatch (SET_LOADING False) w4)))"

section \<open>The rollover guard: \<^verbatim>\<open>resetDailyGoalsForNewDay\<close>\<close>

definition resetDailyProgress :: "SalesGoal \<Rightarrow> GoalProgress" where
  "resetDailyProgress g =
     \<lparr>goal = g, current_amount = 0, progress_percentage = Some 0, is_achieved = False,
      hours_remaining = Some 24, days_remaining = None\<rparr>"

definition resetDailyGoalsForNewDay :: "JSDate \<Rightarrow> world \<Rightarrow> world" where
  "resetDailyGoalsForNewDay now w =
     (let today = toDateString now;
          lastDailyCelebration = localStorage w ''lastDailyCelebration'';
          w1 = emit (CacheGet ''lastDailyCelebration'') w
      in if truthy lastDailyCelebration \<and> lastDailyCelebration \<noteq> Some (Text today) then
           (let w2 = dispatch CLEAR_LAST_CELEBRATION w1;
                w3 = (case dailyGoal (state w) of
                        None \<Rightarrow> w2
                      | Some g \<Rightarrow> dispatch (SET_DAILY_PROGRESS (Some (resetDailyProgress g))) w2)
            in removeItem ''lastDailyCelebration'' w3)
         else w1)"

section \<open>Progress: \<^verbatim>\<open>updateGoalProgress\<close>\<close>

text \<open>
  The two expressions of each progress record:
  \<^verbatim>\<open>target > 0 ? Math.min((amount / target) * 100, 999) : 0\<close> and
  \<^verbatim>\<open>target > 0 ? amount >= target : false\<close>.
\<close>

definition percentage :: "rat \<Rightarrow> rat \<Rightarrow> rat option" where
  "percentage amount targetAmount =
     (if targetAmount > 0
      then map_option (\<lambda>q. min (q * 100) 999) (js_divide amount targetAmount)
      else Some 0)"

definition achieved :: "rat \<Rightarrow> rat \<Rightarrow> bool" where
  "achieved amount targetAmount = (if targetAmount > 0 then amount \<ge> targetAmount else False)"

definition totalSales_or_0 :: "rat option \<Rightarrow> rat" where
  "totalSales_or_0 r = (case r of None \<Rightarrow> 0 | Some x \<Rightarrow> x)"

definition mk_dailyProgress :: "SalesGoal \<Rightarrow> rat \<Rightarrow> JSDate \<Rightarrow> GoalProgress" where
  "mk_dailyProgress g dailyAmount now =
     \<lparr>goal = g, current_amount = dailyAmount,
      progress_percentage = percentage dailyAmount (target_amount g),
      is_achieved = achieved dailyAmount (target_amount g),
      hours_remaining = Some (max 0 (24 - int (getHours now))),
      days_remaining = None\<rparr>"

definition mk_monthlyProgress :: "SalesGoal \<Rightarrow> rat \<Rightarrow> JSDate \<Rightarrow> GoalProgress" where
  "mk_monthlyProgress g monthlyAmount now =
     \<lparr>goal = g, current_amount = monthlyAmount,
      progress_percentage = percentage monthlyAmount (target_amount g),
      is_achieved = achieved monthlyAmount (target_amount g),
      hours_remaining = None,
      days_remaining =
        Some (max 0 (int (getDate (new_Date (getFullYear now) (int (getMonth now) + 1) 0 0 0 0 0))
                       - int (getDate now)))\<rparr>"

text \<open>
  The Sales Metrics Source answers a date range with a failure or with metrics whose
  \<^verbatim>\<open>totalSales\<close> may be missing. The clock is read on entry (\<open>t0\<close>, by the rollover
  guard) and again after the two fetches (\<open>now\<close>). A failure of either fetch is caught:
  nothing more is dispatched.
\<close>

definition updateGoalProgress ::
  "Auth \<Rightarrow> (string \<Rightarrow> api_error + rat option) \<Rightarrow> JSDate \<Rightarrow> JSDate \<Rightarrow> world \<Rightarrow> world" where
  "updateGoalProgress auth getDashboardAnalytics t0 now w =
     (case user auth of
        None \<Rightarrow> w
      | Some u \<Rightarrow>
          (case dailyGoal (state w) of
             None \<Rightarrow> w
           | Some dg \<Rightarrow>
               (case monthlyGoal (state w) of
                  None \<Rightarrow> w
                | Some mg \<Rightarrow>
                    if \<not> isAuthenticated auth then w
                    else
                      (let w1 = emit (GetDashboardAnalytics (store_id u) ''today'')
                                  (resetDailyGoalsForNewDay t0 w)
                       in case getDashboardAnalytics ''today'' of
                            Inl err \<Rightarrow> w1
                          | Inr dailyMetrics \<Rightarrow>
                              (let w2 = emit (GetDashboardAnalytics (store_id u) ''this_month'') w1
                               in case getDashboardAnalytics ''this_month'' of
                                    Inl err \<Rightarrow> w2
                                  | Inr monthlyMetricsData \<Rightarrow>
                                      dispatch
                                        (SET_MONTHLY_PROGRESS
                                           (Some (mk_monthlyProgress mg
                                                    (totalSales_or_0 monthlyMetricsData) now)))
                                        (dispatch
                                           (SET_DAILY_PROGRESS
                                              (Some (mk_dailyProgress dg
                                                       (totalSales_or_0 dailyMetrics) now)))
                                           w2))))))"

section \<open>Achievements: \<^verbatim>\<open>checkGoalAchievements\<close>\<close>

definition thisMonth :: "JSDate \<Rightarrow> string" where
  "thisMonth now = string_of_int (getFullYear now) @ ''-'' @ string_of_nat (getMonth now)"

definition daily_celebration :: "SalesGoal \<Rightarrow> GoalProgress \<Rightarrow> JSDate \<Rightarrow> GoalCelebration" where
  "daily_celebration g p now =
     \<lparr>goalType = ''daily'', goalAmount = target_amount g, actualAmount = current_amount p,
      goalName = goal_name g, achieved_at = now\<rparr>"

definition monthly_celebration :: "SalesGoal \<Rightarrow> GoalProgress \<Rightarrow> JSDate \<Rightarrow> GoalCelebration" where
  "monthly_celebration g p now =
     \<lparr>goalType = ''monthly'', goalAmount = target_amount g, actualAmount = current_amount p,
      goalName = goal_name g, achieved_at = now\<rparr>"

definition daily_notification :: "SalesGoal \<Rightarrow> GoalProgress \<Rightarrow> Notification" where
  "daily_notification g p =
     \<lparr>title = ''Daily Goal Achieved!'', body_target = target_amount g,
      body_current = current_amount p, sound = True, requireInteraction = False,
      tag = ''daily-goal-achievement''\<rparr>"

definition monthly_notification :: "SalesGoal \<Rightarrow> GoalProgress \<Rightarrow> Notification" where
  "monthly_notification g p =
     \<lparr>title = ''Monthly Goal Achieved!'', body_target = target_amount g,
      body_current = current_amount p, sound = True, requireInteraction = False,
      tag = ''monthly-goal-achievement''\<rparr>"

text \<open>
  The monthly half of the check. The goals and the progress are those of the render in
  which the callback was made (\<open>s\<close>), the marker is the one read on entry. Reading the
  target of a goal that is \<^verbatim>\<open>null\<close> throws; so does a notifier that rejects, as the call
  is awaited outside any \<^verbatim>\<open>try\<close>.
\<close>

definition check_monthly ::
  "(Notification \<Rightarrow> bool) \<Rightarrow> JSDate \<Rightarrow> GoalState \<Rightarrow> GoalProgress \<Rightarrow> cache_entry option
     \<Rightarrow> world \<Rightarrow> outcome \<times> world" where
  "check_monthly notifier now s mp lastMonthlyCelebration w =
     (if is_achieved mp \<and> lastMonthlyCelebration \<noteq> Some (Text (thisMonth now)) then
        (case monthlyGoal s of
           None \<Rightarrow> (Rejected, w)
         | Some g \<Rightarrow>
             (let w1 = setItem ''lastMonthlyCelebration'' (Text (thisMonth now)) w;
                  w2 = dispatch (SET_LAST_CELEBRATION (Some (monthly_celebration g mp now))) w1;
                  w3 = emit (ShowNotification (monthly_notification g mp)) w2
              in if notifier (monthly_notification g mp) then (Resolved, w3) else (Rejected, w3)))
      else (Resolved, w))"

definition checkGoalAchievements ::
  "(Notification \<Rightarrow> bool) \<Rightarrow> JSDate \<Rightarrow> world \<Rightarrow> outcome \<times> world" where
  "checkGoalAchievements notifier now w =
     (case dailyProgress (state w) of
        None \<Rightarrow> (Resolved, w)
      | Some dp \<Rightarrow>
          (case monthlyProgress (state w) of
             None \<Rightarrow> (Resolved, w)
           | Some mp \<Rightarrow>
               (let s = state w;
                    today = toDateString now;
                    lastDailyCelebration = localStorage w ''lastDailyCelebration'';
                    lastMonthlyCelebration = localStorage w ''lastMonthlyCelebration'';
                    w1 = emit (CacheGet ''lastMonthlyCelebration'')
                           (emit (CacheGet ''lastDailyCelebration'') w);
                    w2 = (if truthy lastDailyCelebration
                             \<and> lastDailyCelebration \<noteq> Some (Text today)
                          then dispatch CLEAR_LAST_CELEBRATION w1 else w1)
                in if is_achieved dp \<and> lastDailyCelebration \<noteq> Some (Text today) then
                     (case dailyGoal s of
                        None \<Rightarrow> (Rejected, w2)
                      | Some g \<Rightarrow>
                          (let w3 = setItem ''lastDailyCelebration'' (Text today) w2;
                               w4 = dispatch
                                      (SET_LAST_CELEBRATION (Some (daily_celebration g dp now))) w3;
                               w5 = emit (ShowNotification (daily_notification g dp)) w4
                           in if notifier (daily_notification g dp)
                              then check_monthly notifier now s mp lastMonthlyCelebration w5
                              else (Rejected, w5)))
                   else check_monthly notifier now s mp lastMonthlyCelebration w2)))"

text \<open>
  The operation is asynchronous, and it is suspended where it awaits the daily
  notification: the markers were read on entry, the marker and the celebration of the day
  are written, the monthly half is still ahead. Nothing keeps another invocation from
  starting meanwhile. \<open>check_begin\<close> is the operation up to that point, with what the
  invocation keeps for later; \<open>check_resume\<close> is the rest. After the monthly notification
  nothing is left to do, so an invocation that does not await the daily notification has
  made all its effects when \<open>check_begin\<close> returns.
\<close>

record pending =
  p_notifier :: "Notification \<Rightarrow> bool"
  p_now :: JSDate
  p_state :: GoalState
  p_monthlyProgress :: GoalProgress
  p_lastMonthlyCelebration :: "cache_entry option"
  p_awaited :: Notification

definition check_begin ::
  "(Notification \<Rightarrow> bool) \<Rightarrow> JSDate \<Rightarrow> world \<Rightarrow> pending option \<times> world" where
  "check_begin notifier now w =
     (case dailyProgress (state w) of
        None \<Rightarrow> (None, w)
      | Some dp \<Rightarrow>
          (case monthlyProgress (state w) of
             None \<Rightarrow> (None, w)
           | Some mp \<Rightarrow>
               (let s = state w;
                    today = toDateString now;
                    lastDailyCelebration = localStorage w ''lastDailyCelebration'';
                    lastMonthlyCelebration = localStorage w ''lastMonthlyCelebration'';
                    w1 = emit (CacheGet ''lastMonthlyCelebration'')
                           (emit (CacheGet ''lastDailyCelebration'') w);
                    w2 = (if truthy lastDailyCelebration
                             \<and> lastDailyCelebration \<noteq> Some (Text today)
                          then dispatch CLEAR_LAST_CELEBRATION w1 else w1)
                in if is_achieved dp \<and> lastDailyCelebration \<noteq> Some (Text today) then
                     (case dailyGoal s of
                        None \<Rightarrow> (None, w2)
                      | Some g \<Rightarrow>
                          (let w3 = setItem ''lastDailyCelebration'' (Text today) w2;
                               w4 = dispatch
                                      (SET_LAST_CELEBRATION (Some (daily_celebration g dp now))) w3;
                               w5 = emit (ShowNotification (daily_notification g dp)) w4
                           in (Some \<lparr>p_notifier = notifier, p_now = now, p_state = s,
                                     p_monthlyProgress = mp,
                                     p_lastMonthlyCelebration = lastMonthlyCelebration,
                                     p_awaited = daily_notification g dp\<rparr>,
                               w5)))
                   else (None, snd (check_monthly notifier now s mp lastMonthlyCelebration w2)))))"

definition check_resume :: "pending \<Rightarrow> world \<Rightarrow> world" where
  "check_resume p w =
     (if p_notifier p (p_awaited p)
      then snd (check_monthly (p_notifier p) (p_now p) (p_state p) (p_monthlyProgress p)
                  (p_lastMonthlyCelebration p) w)
      else w)"

text \<open>
  The daily half of an invocation lets the monthly half run: the guard is passed, and if
  the day is celebrated, then the daily goal is there and the notifier accepts the daily
  notification.
\<close>

definition daily_half_passes :: "(Notification \<Rightarrow> bool) \<Rightarrow> JSDate \<Rightarrow> world \<Rightarrow> bool" where
  "daily_half_passes notifier now w =
     (case dailyProgress (state w) of
        None \<Rightarrow> False
      | Some dp \<Rightarrow>
          if is_achieved dp
             \<and> localStorage w ''lastDailyCelebration'' \<noteq> Some (Text (toDateString now))
          then (case dailyGoal (state w) of
                  None \<Rightarrow> False
                | Some g \<Rightarrow> notifier (daily_notification g dp))
          else True)"

section \<open>Runs of the achievement check\<close>

text \<open>
  A call has its notifier and its reading of the clock; the rest of the engine may have
  changed the state since the call before (a new progress, a reconciliation, a celebration
  dismissed), which \<open>call_before\<close> stands for. The markers in \<^verbatim>\<open>localStorage\<close> are
  touched by the calls only.
\<close>

record check_call =
  call_notifier :: "Notification \<Rightarrow> bool"
  call_now :: JSDate
  call_before :: "GoalState \<Rightarrow> GoalState"

text \<open>
  Calls that do not overlap: each invocation runs to its end before the next one starts.
\<close>

definition check_step :: "check_call \<Rightarrow> world \<Rightarrow> world" where
  "check_step c w =
     snd (checkGoalAchievements (call_notifier c) (call_now c)
            (w\<lparr>state := call_before c (state w)\<rparr>))"

fun run_checks :: "check_call list \<Rightarrow> world \<Rightarrow> world" where
  "run_checks [] w = w"
| "run_checks (c # cs) w = run_checks cs (check_step c w)"

text \<open>
  Calls that may overlap: a schedule starts invocations and resumes the suspended ones, in
  any order. \<open>Resume i\<close> resumes the invocation at position \<open>i\<close> among those
  suspended, and does nothing if there is none. \<open>sequential\<close> is the schedule of the
  calls that do not overlap.
\<close>

datatype step = Start check_call | Resume nat

fun run_step :: "step \<Rightarrow> world \<times> pending list \<Rightarrow> world \<times> pending list" where
  "run_step (Start c) (w, ps) =
     (case check_begin (call_notifier c) (call_now c) (w\<lparr>state := call_before c (state w)\<rparr>) of
        (None, w') \<Rightarrow> (w', ps)
      | (Some p, w') \<Rightarrow> (w', ps @ [p]))"
| "run_step (Resume i) (w, ps) =
     (if i < length ps then (check_resume (ps ! i) w, take i ps @ drop (Suc i) ps)
      else (w, ps))"

fun run_schedule :: "step list \<Rightarrow> world \<times> pending list \<Rightarrow> world \<times> pending list" where
  "run_schedule [] x = x"
| "run_schedule (a # as) x = run_schedule as (run_step a x)"

definition sequential :: "check_call list \<Rightarrow> step list" where
  "sequential cs = concat (map (\<lambda>c. [Start c, Resume 0]) cs)"

fun is_start :: "step \<Rightarrow> bool" where
  "is_start (Start c) = True"
| "is_start (Resume i) = False"

fun is_notification :: "string \<Rightarrow> event \<Rightarrow> bool" where
  "is_notification t (ShowNotification n) = (tag n = t)"
| "is_notification t _ = False"

fun is_celebration :: "string \<Rightarrow> event \<Rightarrow> bool" where
  "is_celebration t (Dispatch (SET_LAST_CELEBRATION (Some c))) = (goalType c = t)"
| "is_celebration t _ = False"

definition notified :: "string \<Rightarrow> world \<Rightarrow> nat" where
  "notified t w = length (filter (is_notification t) (events w))"

definition celebrated :: "string \<Rightarrow> world \<Rightarrow> nat" where
  "celebrated t w = length (filter (is_celebration t) (events w))"

definition same_day :: "JSDate \<Rightarrow> JSDate \<Rightarrow> bool" where
  "same_day a b =
     (getFullYear a = getFullYear b \<and> getMonth a = getMonth b \<and> getDate a = getDate b)"

definition same_month :: "JSDate \<Rightarrow> JSDate \<Rightarrow> bool" where
  "same_month a b = (getFullYear a = getFullYear b \<and> getMonth a = getMonth b)"

text \<open>
  What the state must offer at each call for the daily track to be checked: both progress
  records (the guard of the operation), a daily progress that is achieved, and the daily
  goal the celebration is built from. All calls fall on the calendar day of \<open>d\<close>.
\<close>

definition daily_ready :: "JSDate \<Rightarrow> check_call \<Rightarrow> world \<Rightarrow> bool" where
  "daily_ready d c w =
     (same_day (call_now c) d
      \<and> (case dailyProgress (call_before c (state w)) of
            None \<Rightarrow> False | Some dp \<Rightarrow> is_achieved dp)
      \<and> monthlyProgress (call_before c (state w)) \<noteq> None
      \<and> dailyGoal (call_before c (state w)) \<noteq> None)"

fun daily_achieved_throughout :: "JSDate \<Rightarrow> check_call list \<Rightarrow> world \<Rightarrow> bool" where
  "daily_achieved_throughout d [] w = True"
| "daily_achieved_throughout d (c # cs) w =
     (daily_ready d c w \<and> daily_achieved_throughout d cs (check_step c w))"

fun daily_achieved_at_starts :: "JSDate \<Rightarrow> step list \<Rightarrow> world \<times> pending list \<Rightarrow> bool" where
  "daily_achieved_at_starts d [] x = True"
| "daily_achieved_at_starts d (Start c # as) x =
     (daily_ready d c (fst x) \<and> daily_achieved_at_starts d as (run_step (Start c) x))"
| "daily_achieved_at_starts d (Resume i # as) x =
     daily_achieved_at_starts d as (run_step (Resume i) x)"

text \<open>
  The same for the monthly track, within the month of \<open>d\<close>. The monthly check runs
  after the daily one, so the daily one must let it run.
\<close>

fun monthly_achieved_throughout :: "JSDate \<Rightarrow> check_call list \<Rightarrow> world \<Rightarrow> bool" where
  "monthly_achieved_throughout d [] w = True"
| "monthly_achieved_throughout d (c # cs) w =
     (same_month (call_now c) d
      \<and> (case monthlyProgress (call_before c (state w)) of
            None \<Rightarrow> False | Some mp \<Rightarrow> is_achieved mp)
      \<and> monthlyGoal (call_before c (state w)) \<noteq> None
      \<and> daily_half_passes (call_notifier c) (call_now c)
            (w\<lparr>state := call_before c (state w)\<rparr>)
      \<and> monthly_achieved_throughout d cs (check_step c w))"

section \<open>Scenarios\<close>

text \<open>
  The concrete data of the examples: store \<open>S1\<close>, the first of June 2024 at 00:05 (a
  Saturday), the fifteenth of April 2024, and goals for March, April, May and June.
\<close>

definition at_time :: "int \<Rightarrow> nat \<Rightarrow> nat \<Rightarrow> nat \<Rightarrow> nat \<Rightarrow> nat \<Rightarrow> nat \<Rightarrow> JSDate" where
  "at_time y m d h mi s ms =
     \<lparr>getFullYear = y, getMonth = m, getDate = d,
      getHours = h, getMinutes = mi, getSeconds = s, getMilliseconds = ms\<rparr>"

definition june1 :: JSDate where
  "june1 = at_time 2024 5 1 0 5 0 0"

definition april15 :: JSDate where
  "april15 = at_time 2024 3 15 12 0 0 0"

definition window_goal :: "string \<Rightarrow> string \<Rightarrow> rat \<Rightarrow> JSDate \<Rightarrow> JSDate \<Rightarrow> SalesGoal" where
  "window_goal i ty amount s e =
     \<lparr>goal_id = i, goal_type = ty, goal_name = i, target_amount = amount,
      period_start = Some (ValidDate s), period_end = Some (ValidDate e)\<rparr>"

definition goal_A :: SalesGoal where
  "goal_A = window_goal ''A'' ''monthly'' 80000
              (at_time 2024 2 1 0 0 0 0) (at_time 2024 2 31 23 59 59 999)"

definition goal_B :: SalesGoal where
  "goal_B = window_goal ''B'' ''monthly'' 90000
              (at_time 2024 3 1 0 0 0 0) (at_time 2024 3 30 23 59 59 999)"

definition monthly_may :: SalesGoal where
  "monthly_may = window_goal ''may'' ''monthly'' 100000
                   (at_time 2024 4 1 0 0 0 0) (at_time 2024 4 31 23 59 59 999)"

definition monthly_june :: SalesGoal where
  "monthly_june = window_goal ''june'' ''monthly'' 100000
                    (at_time 2024 5 1 0 0 0 0) (at_time 2024 5 30 23 59 59 999)"

definition daily_june1 :: SalesGoal where
  "daily_june1 = window_goal ''june-1'' ''daily'' 3334
                   (at_time 2024 5 1 0 0 0 0) (at_time 2024 5 1 23 59 59 999)"

definition user_S1 :: User where
  "user_S1 = \<lparr>user_id = ''u1'', store_id = ''S1''\<rparr>"

definition auth_S1 :: Auth where
  "auth_S1 = \<lparr>isAuthenticated = True, user = Some user_S1\<rparr>"

definition auth_no_store :: Auth where
  "auth_no_store = \<lparr>isAuthenticated = True, user = Some \<lparr>user_id = ''u1'', store_id = []\<rparr>\<rparr>"

text \<open>A Goal Store that creates what it is asked for.\<close>

definition store_creates :: "CreateGoalRequest \<Rightarrow> api_error + SalesGoal" where
  "store_creates r =
     Inr \<lparr>goal_id = ''created'', goal_type = req_goal_type r, goal_name = [],
          target_amount = (case req_target_amount r of None \<Rightarrow> 0 | Some a \<Rightarrow> a),
          period_start = Some (ValidDate (req_period_start r)),
          period_end = Some (ValidDate (req_period_end r))\<rparr>"

definition world0 :: world where
  "world0 = \<lparr>state = initialState, localStorage = (\<lambda>k. None), events = []\<rparr>"

text \<open>
  A session in which both goals are set and the sales of the day have passed the daily
  target, the sales of the month not yet the monthly one.
\<close>

definition daily_hit :: GoalProgress where
  "daily_hit = mk_dailyProgress daily_june1 4000 june1"

definition monthly_short :: GoalProgress where
  "monthly_short = mk_monthlyProgress monthly_june 50000 june1"

definition monthly_hit :: GoalProgress where
  "monthly_hit = mk_monthlyProgress monthly_june 120000 june1"

definition tracking :: GoalState where
  "tracking =
     initialState\<lparr>dailyGoal := Some daily_june1, monthlyGoal := Some monthly_june,
                  dailyProgress := Some daily_hit, monthlyProgress := Some monthly_short\<rparr>"

definition world_tracking :: world where
  "world_tracking = world0\<lparr>state := tracking\<rparr>"

definition notifier_ok :: "Notification \<Rightarrow> bool" where
  "notifier_ok n = True"

definition notifier_fails_daily :: "Notification \<Rightarrow> bool" where
  "notifier_fails_daily n = (tag n \<noteq> ''daily-goal-achievement'')"

definition first_call :: check_call where
  "first_call = \<lparr>call_notifier = notifier_ok, call_now = june1, call_before = (\<lambda>s. s)\<rparr>"

text \<open>Before the second call, a progress update has brought the month over its target.\<close>

definition second_call :: check_call where
  "second_call =
     \<lparr>call_notifier = notifier_ok, call_now = june1,
      call_before = (\<lambda>s. s\<lparr>monthlyProgress := Some monthly_hit\<rparr>)\<rparr>"

text \<open>The same session without a monthly progress record.\<close>

definition world_daily_only :: world where
  "world_daily_only = world0\<lparr>state := tracking\<lparr>monthlyProgress := None\<rparr>\<rparr>"

text \<open>The same session once the month is over its target too.\<close>

definition world_both :: world where
  "world_both = world0\<lparr>state := tracking\<lparr>monthlyProgress := Some monthly_hit\<rparr>\<rparr>"

text \<open>
  Two invocations that overlap: the second starts while the first awaits the daily
  notification; the second runs to its end, then the first is resumed.
\<close>

definition overlapping :: "step list" where
  "overlapping = [Start first_call, Start first_call, Resume 0]"

text \<open>
  Both goals set and no progress yet; a Sales Metrics Source with the sales of the day
  and of the month, and one whose totals are negative (refunds exceed sales).
\<close>

definition world_goals :: world where
  "world_goals =
     world0\<lparr>state := initialState\<lparr>dailyGoal := Some daily_june1,
                                     monthlyGoal := Some monthly_june\<rparr>\<rparr>"

text \<open>The same with a daily goal whose target is 0.\<close>

definition zero_goal :: SalesGoal where
  "zero_goal = window_goal ''zero'' ''daily'' 0
                 (at_time 2024 5 1 0 0 0 0) (at_time 2024 5 1 23 59 59 999)"

definition world_zero_target :: world where
  "world_zero_target =
     world0\<lparr>state := initialState\<lparr>dailyGoal := Some zero_goal,
                                     monthlyGoal := Some monthly_june\<rparr>\<rparr>"

text \<open>A session in which the monthly goal is set and the daily goal is not.\<close>

definition world_monthly_only :: world where
  "world_monthly_only =
     world0\<lparr>state := initialState\<lparr>monthlyGoal := Some monthly_june,
                                     monthlyProgress := Some monthly_short\<rparr>\<rparr>"

definition sales_metrics :: "string \<Rightarrow> api_error + rat option" where
  "sales_metrics r = (if r = ''today'' then Inr (Some 4000) else Inr (Some 50000))"

definition refund_metrics :: "string \<Rightarrow> api_error + rat option" where
  "refund_metrics r = Inr (Some (- 50))"

text \<open>
  The morning after a celebrated day: the marker of the thirty-first of May (a Friday),
  the celebration still pending, and a daily progress of 500 left from the day before.
  In \<open>world_yesterday\<close> the daily goal is set, in \<open>world_stale\<close> it is not.
\<close>

definition stale_progress :: GoalProgress where
  "stale_progress =
     \<lparr>goal = daily_june1, current_amount = 500, progress_percentage = Some 15,
      is_achieved = False, hours_remaining = Some 1, days_remaining = None\<rparr>"

definition yesterday_storage :: Storage where
  "yesterday_storage = (\<lambda>k. None)(''lastDailyCelebration'' \<mapsto> Text ''Fri May 31 2024'')"

definition world_yesterday :: world where
  "world_yesterday =
     \<lparr>state = initialState\<lparr>dailyGoal := Some daily_june1,
                            dailyProgress := Some stale_progress,
                            lastCelebration :=
                              Some (daily_celebration daily_june1 stale_progress june1)\<rparr>,
      localStorage = yesterday_storage, events = []\<rparr>"

definition world_stale :: world where
  "world_stale =
     \<lparr>state = initialState\<lparr>dailyProgress := Some stale_progress\<rparr>,
      localStorage = yesterday_storage, events = []\<rparr>"





text \<open>
  The end-to-end scenario: on the first of June the store lists the monthly goal of May
  only; \<open>created_june\<close> is what the Goal Store returns for the goal carried over.
\<close>

definition created_june :: SalesGoal where
  "created_june =
     \<lparr>goal_id = ''created'', goal_type = ''monthly'', goal_name = [], target_amount = 100000,
      period_start = Some (ValidDate (at_time 2024 5 1 0 0 0 0)),
      period_end = Some (ValidDate (at_time 2024 5 30 23 59 59 999))\<rparr>"

definition june_reconciled :: world where
  "june_reconciled = loadGoals auth_S1 (Inr [monthly_may]) store_creates june1 world0"

definition april_reconciled :: world where
  "april_reconciled = loadGoals auth_S1 (Inr [goal_A, goal_B]) store_creates april15 world0"

section \<open>Basic facts\<close>


lemma state_emit [simp]: "state (emit e w) = state w"
  and localStorage_emit [simp]: "localStorage (emit e w) = localStorage w"
  and events_emit [simp]: "events (emit e w) = events w @ [e]"
  by (simp_all add: emit_def)

lemma state_dispatch [simp]: "state (dispatch a w) = goalReducer (state w) a"
  and localStorage_dispatch [simp]: "localStorage (dispatch a w) = localStorage w"
  and events_dispatch [simp]: "events (dispatch a w) = events w @ [Dispatch a]"
  by (simp_all add: dispatch_def)

lemma state_setItem [simp]: "state (setItem k v w) = state w"
  and localStorage_setItem [simp]: "localStorage (setItem k v w) = (localStorage w)(k \<mapsto> v)"
  and events_setItem [simp]: "events (setItem k v w) = events w @ [CacheSet k]"
  by (simp_all add: setItem_def)

lemma state_removeItem [simp]: "state (removeItem k w) = state w"
  and localStorage_removeItem [simp]: "localStorage (removeItem k w) = (localStorage w)(k := None)"
  and events_removeItem [simp]: "events (removeItem k w) = events w @ [CacheRemove k]"
  by (simp_all add: removeItem_def)

lemma notified_emit [simp]:
  "notified t (emit e w) = notified t w + (if is_notification t e then 1 else 0)"
  by (simp add: notified_def)

lemma notified_dispatch [simp]: "notified t (dispatch a w) = notified t w"
  by (simp add: notified_def)

lemma notified_setItem [simp]: "notified t (setItem k v w) = notified t w"
  by (simp add: notified_def)

lemma celebrated_emit [simp]:
  "celebrated t (emit e w) = celebrated t w + (if is_celebration t e then 1 else 0)"
  by (simp add: celebrated_def)

lemma celebrated_dispatch [simp]:
  "celebrated t (dispatch a w) = celebrated t w + (if is_celebration t (Dispatch a) then 1 else 0)"
  by (simp add: celebrated_def)

lemma celebrated_setItem [simp]: "celebrated t (setItem k v w) = celebrated t w"
  by (simp add: celebrated_def)

lemma notified_state_upd [simp]: "notified t (w\<lparr>state := s\<rparr>) = notified t w"
  by (simp add: notified_def)

lemma celebrated_state_upd [simp]: "celebrated t (w\<lparr>state := s\<rparr>) = celebrated t w"
  by (simp add: celebrated_def)

text \<open>The monthly half of the check leaves the daily track alone.\<close>

lemma check_monthly_daily_track:
  "notified ''daily-goal-achievement'' (snd (check_monthly n now s mp lm w))
     = notified ''daily-goal-achievement'' w"
  "celebrated ''daily'' (snd (check_monthly n now s mp lm w)) = celebrated ''daily'' w"
  "localStorage (snd (check_monthly n now s mp lm w)) ''lastDailyCelebration''
     = localStorage w ''lastDailyCelebration''"
  by (simp_all add: check_monthly_def Let_def monthly_notification_def
      monthly_celebration_def split: option.splits)

lemma check_daily_marked:
  assumes "localStorage w ''lastDailyCelebration'' = Some (Text (toDateString now))"
  shows "notified ''daily-goal-achievement'' (snd (checkGoalAchievements n now w))
           = notified ''daily-goal-achievement'' w"
    and "celebrated ''daily'' (snd (checkGoalAchievements n now w)) = celebrated ''daily'' w"
    and "localStorage (snd (checkGoalAchievements n now w)) ''lastDailyCelebration''
           = Some (Text (toDateString now))"
  using assms
  by (simp_all add: checkGoalAchievements_def Let_def check_monthly_daily_track
      split: option.splits)

lemma check_daily_fires:
  assumes "dailyProgress (state w) = Some dp" and "is_achieved dp"
    and "monthlyProgress (state w) = Some mp" and "dailyGoal (state w) = Some g"
    and "localStorage w ''lastDailyCelebration'' \<noteq> Some (Text (toDateString now))"
  shows "notified ''daily-goal-achievement'' (snd (checkGoalAchievements n now w))
           = notified ''daily-goal-achievement'' w + 1"
    and "celebrated ''daily'' (snd (checkGoalAchievements n now w)) = celebrated ''daily'' w + 1"
    and "localStorage (snd (checkGoalAchievements n now w)) ''lastDailyCelebration''
           = Some (Text (toDateString now))"
  using assms
  by (simp_all add: checkGoalAchievements_def Let_def check_monthly_daily_track
      daily_notification_def daily_celebration_def)


lemma same_day_toDateString: "same_day a b \<Longrightarrow> toDateString a = toDateString b"
  by (simp add: same_day_def toDateString_def getDay_def day_number_def)

lemma same_month_thisMonth: "same_month a b \<Longrightarrow> thisMonth a = thisMonth b"
  by (simp add: same_month_def thisMonth_def)


lemma check_monthly_marked:
  assumes "lm = Some (Text (thisMonth now))"
  shows "check_monthly n now s mp lm w = (Resolved, w)"
  using assms by (simp add: check_monthly_def)

lemma check_monthly_fires:
  assumes "is_achieved mp" and "monthlyGoal s = Some g"
    and "lm \<noteq> Some (Text (thisMonth now))"
  shows "notified ''monthly-goal-achievement'' (snd (check_monthly n now s mp lm w))
           = notified ''monthly-goal-achievement'' w + 1"
    and "celebrated ''monthly'' (snd (check_monthly n now s mp lm w))
           = celebrated ''monthly'' w + 1"
    and "localStorage (snd (check_monthly n now s mp lm w)) ''lastMonthlyCelebration''
           = Some (Text (thisMonth now))"
  using assms
  by (simp_all add: check_monthly_def Let_def monthly_notification_def monthly_celebration_def)

lemma check_marked_monthly:
  assumes "localStorage w ''lastMonthlyCelebration'' = Some (Text (thisMonth now))"
  shows "notified ''monthly-goal-achievement'' (snd (checkGoalAchievements n now w))
           = notified ''monthly-goal-achievement'' w"
    and "celebrated ''monthly'' (snd (checkGoalAchievements n now w))
           = celebrated ''monthly'' w"
    and "localStorage (snd (checkGoalAchievements n now w)) ''lastMonthlyCelebration''
           = Some (Text (thisMonth now))"
  using assms
  by (simp_all add: checkGoalAchievements_def Let_def check_monthly_marked
      daily_notification_def daily_celebration_def split: option.splits)


lemma check_fires_monthly:
  assumes "monthlyProgress (state w) = Some mp" and "is_achieved mp"
    and "monthlyGoal (state w) = Some mg"
    and "daily_half_passes n now w"
    and "localStorage w ''lastMonthlyCelebration'' \<noteq> Some (Text (thisMonth now))"
  shows "notified ''monthly-goal-achievement'' (snd (checkGoalAchievements n now w))
           = notified ''monthly-goal-achievement'' w + 1"
    and "celebrated ''monthly'' (snd (checkGoalAchievements n now w))
           = celebrated ''monthly'' w + 1"
    and "localStorage (snd (checkGoalAchievements n now w)) ''lastMonthlyCelebration''
           = Some (Text (thisMonth now))"
  using assms
  by (auto simp add: checkGoalAchievements_def Let_def check_monthly_fires
      daily_half_passes_def daily_notification_def daily_celebration_def
      split: option.splits if_splits)

lemma run_daily_marked:
  assumes "daily_achieved_throughout d cs w"
    and "localStorage w ''lastDailyCelebration'' = Some (Text (toDateString d))"
  shows "notified ''daily-goal-achievement'' (run_checks cs w)
           = notified ''daily-goal-achievement'' w
       \<and> celebrated ''daily'' (run_checks cs w) = celebrated ''daily'' w
       \<and> localStorage (run_checks cs w) ''lastDailyCelebration'' = Some (Text (toDateString d))"
  using assms
proof (induction cs arbitrary: w)
  case Nil
  then show ?case by simp
next
  case (Cons c cs)
  let ?v = "w\<lparr>state := call_before c (state w)\<rparr>"
  from Cons.prems have day: "toDateString (call_now c) = toDateString d"
    by (simp add: daily_ready_def same_day_toDateString)
  have marked: "localStorage ?v ''lastDailyCelebration'' = Some (Text (toDateString (call_now c)))"
    using Cons.prems(2) day by simp
  have step: "notified ''daily-goal-achievement'' (check_step c w)
                = notified ''daily-goal-achievement'' w"
    "celebrated ''daily'' (check_step c w) = celebrated ''daily'' w"
    "localStorage (check_step c w) ''lastDailyCelebration'' = Some (Text (toDateString d))"
    using check_daily_marked [OF marked, of "call_notifier c"] day
    by (simp_all add: check_step_def)
  from Cons.prems have rest: "daily_achieved_throughout d cs (check_step c w)"
    by simp
  from Cons.IH [OF rest step(3)] step show ?case
    by simp
qed

lemma step_daily_fires:
  assumes "daily_achieved_throughout d (c # cs) w"
    and "localStorage w ''lastDailyCelebration'' \<noteq> Some (Text (toDateString d))"
  shows "notified ''daily-goal-achievement'' (check_step c w)
           = notified ''daily-goal-achievement'' w + 1"
    and "celebrated ''daily'' (check_step c w) = celebrated ''daily'' w + 1"
    and "localStorage (check_step c w) ''lastDailyCelebration'' = Some (Text (toDateString d))"
proof -
  let ?v = "w\<lparr>state := call_before c (state w)\<rparr>"
  from assms(1) have day: "toDateString (call_now c) = toDateString d"
    by (simp add: daily_ready_def same_day_toDateString)
  from assms(1) obtain dp mp g where st:
    "dailyProgress (state ?v) = Some dp" "is_achieved dp"
    "monthlyProgress (state ?v) = Some mp" "dailyGoal (state ?v) = Some g"
    by (auto simp: daily_ready_def split: option.splits)
  have fresh: "localStorage ?v ''lastDailyCelebration'' \<noteq> Some (Text (toDateString (call_now c)))"
    using assms(2) day by simp
  show "notified ''daily-goal-achievement'' (check_step c w)
           = notified ''daily-goal-achievement'' w + 1"
    and "celebrated ''daily'' (check_step c w) = celebrated ''daily'' w + 1"
    and "localStorage (check_step c w) ''lastDailyCelebration'' = Some (Text (toDateString d))"
    using check_daily_fires [OF st fresh, of "call_notifier c"] day
    by (simp_all add: check_step_def)
qed

text \<open>Runs: once the marker of the period is written, the track stays silent.\<close>


lemma run_monthly_marked:
  assumes "monthly_achieved_throughout d cs w"
    and "localStorage w ''lastMonthlyCelebration'' = Some (Text (thisMonth d))"
  shows "notified ''monthly-goal-achievement'' (run_checks cs w)
           = notified ''monthly-goal-achievement'' w
       \<and> celebrated ''monthly'' (run_checks cs w) = celebrated ''monthly'' w
       \<and> localStorage (run_checks cs w) ''lastMonthlyCelebration'' = Some (Text (thisMonth d))"
  using assms
proof (induction cs arbitrary: w)
  case Nil
  then show ?case by simp
next
  case (Cons c cs)
  let ?v = "w\<lparr>state := call_before c (state w)\<rparr>"
  from Cons.prems have month: "thisMonth (call_now c) = thisMonth d"
    by (simp add: same_month_thisMonth)
  have marked: "localStorage ?v ''lastMonthlyCelebration'' = Some (Text (thisMonth (call_now c)))"
    using Cons.prems(2) month by simp
  have step: "notified ''monthly-goal-achievement'' (check_step c w)
                = notified ''monthly-goal-achievement'' w"
    "celebrated ''monthly'' (check_step c w) = celebrated ''monthly'' w"
    "localStorage (check_step c w) ''lastMonthlyCelebration'' = Some (Text (thisMonth d))"
    using check_marked_monthly [OF marked, of "call_notifier c"] month
    by (simp_all add: check_step_def)
  from Cons.prems have rest: "monthly_achieved_throughout d cs (check_step c w)"
    by simp
  from Cons.IH [OF rest step(3)] step show ?case
    by simp
qed

lemma step_monthly_fires:
  assumes "monthly_achieved_throughout d (c # cs) w"
    and "localStorage w ''lastMonthlyCelebration'' \<noteq> Some (Text (thisMonth d))"
  shows "notified ''monthly-goal-achievement'' (check_step c w)
           = notified ''monthly-goal-achievement'' w + 1"
    and "celebrated ''monthly'' (check_step c w) = celebrated ''monthly'' w + 1"
    and "localStorage (check_step c w) ''lastMonthlyCelebration'' = Some (Text (thisMonth d))"
proof -
  let ?v = "w\<lparr>state := call_before c (state w)\<rparr>"
  from assms(1) have month: "thisMonth (call_now c) = thisMonth d"
    by (simp add: same_month_thisMonth)
  from assms(1) obtain mp mg where st:
    "monthlyProgress (state ?v) = Some mp" "is_achieved mp"
    "monthlyGoal (state ?v) = Some mg"
    "daily_half_passes (call_notifier c) (call_now c) ?v"
    by (auto split: option.splits)
  have fresh:
    "localStorage ?v ''lastMonthlyCelebration'' \<noteq> Some (Text (thisMonth (call_now c)))"
    using assms(2) month by simp
  show "notified ''monthly-goal-achievement'' (check_step c w)
           = notified ''monthly-goal-achievement'' w + 1"
    and "celebrated ''monthly'' (check_step c w) = celebrated ''monthly'' w + 1"
    and "localStorage (check_step c w) ''lastMonthlyCelebration'' = Some (Text (thisMonth d))"
    using check_fires_monthly [OF st fresh] month
    by (simp_all add: check_step_def)
qed

text \<open>
  Invocations that overlap. The daily half of an invocation is done when it is suspended, so
  the daily track is settled by \<open>check_begin\<close> alone; resuming touches the monthly track
  only. A schedule without overlap is a run of whole calls.
\<close>

lemma check_begin_resume:
  "snd (checkGoalAchievements n now w)
     = (case check_begin n now w of
          (None, w') \<Rightarrow> w'
        | (Some p, w') \<Rightarrow> check_resume p w')"
  by (simp add: checkGoalAchievements_def check_begin_def check_resume_def Let_def
      split: option.splits)

lemma check_resume_daily_track:
  "notified ''daily-goal-achievement'' (check_resume p w)
     = notified ''daily-goal-achievement'' w"
  "celebrated ''daily'' (check_resume p w) = celebrated ''daily'' w"
  "localStorage (check_resume p w) ''lastDailyCelebration''
     = localStorage w ''lastDailyCelebration''"
  by (simp_all add: check_resume_def check_monthly_daily_track)

lemma check_begin_daily_marked:
  assumes "localStorage w ''lastDailyCelebration'' = Some (Text (toDateString now))"
  shows "notified ''daily-goal-achievement'' (snd (check_begin n now w))
           = notified ''daily-goal-achievement'' w"
    and "celebrated ''daily'' (snd (check_begin n now w)) = celebrated ''daily'' w"
    and "localStorage (snd (check_begin n now w)) ''lastDailyCelebration''
           = Some (Text (toDateString now))"
  using assms
  by (simp_all add: check_begin_def Let_def check_monthly_daily_track split: option.splits)

lemma check_begin_daily_fires:
  assumes "dailyProgress (state w) = Some dp" and "is_achieved dp"
    and "monthlyProgress (state w) = Some mp" and "dailyGoal (state w) = Some g"
    and "localStorage w ''lastDailyCelebration'' \<noteq> Some (Text (toDateString now))"
  shows "notified ''daily-goal-achievement'' (snd (check_begin n now w))
           = notified ''daily-goal-achievement'' w + 1"
    and "celebrated ''daily'' (snd (check_begin n now w)) = celebrated ''daily'' w + 1"
    and "localStorage (snd (check_begin n now w)) ''lastDailyCelebration''
           = Some (Text (toDateString now))"
  using assms
  by (simp_all add: check_begin_def Let_def daily_notification_def daily_celebration_def)

lemma fst_run_step_Start:
  "fst (run_step (Start c) (w, ps))
     = snd (check_begin (call_notifier c) (call_now c) (w\<lparr>state := call_before c (state w)\<rparr>))"
  by (simp split: prod.splits option.splits)

lemma run_step_Resume_daily_track:
  "notified ''daily-goal-achievement'' (fst (run_step (Resume i) (w, ps)))
     = notified ''daily-goal-achievement'' w"
  "celebrated ''daily'' (fst (run_step (Resume i) (w, ps))) = celebrated ''daily'' w"
  "localStorage (fst (run_step (Resume i) (w, ps))) ''lastDailyCelebration''
     = localStorage w ''lastDailyCelebration''"
  by (simp_all add: check_resume_daily_track)

lemma run_schedule_sequential:
  "run_schedule (sequential cs) (w, []) = (run_checks cs w, [])"
proof (induction cs arbitrary: w)
  case Nil
  then show ?case by (simp add: sequential_def)
next
  case (Cons c cs)
  have split: "sequential (c # cs) = Start c # Resume 0 # sequential cs"
    by (simp add: sequential_def)
  have "run_step (Resume 0) (run_step (Start c) (w, [])) = (check_step c w, [])"
    by (simp add: check_step_def check_begin_resume split: prod.splits option.splits)
  with Cons.IH show ?case
    by (simp add: split)
qed

lemma schedule_daily_marked:
  assumes "daily_achieved_at_starts d sched (w, ps)"
    and "localStorage w ''lastDailyCelebration'' = Some (Text (toDateString d))"
  shows "notified ''daily-goal-achievement'' (fst (run_schedule sched (w, ps)))
           = notified ''daily-goal-achievement'' w
       \<and> celebrated ''daily'' (fst (run_schedule sched (w, ps))) = celebrated ''daily'' w
       \<and> localStorage (fst (run_schedule sched (w, ps))) ''lastDailyCelebration''
           = Some (Text (toDateString d))"
  using assms
proof (induction sched arbitrary: w ps)
  case Nil
  then show ?case by simp
next
  case (Cons a as)
  obtain w' ps' where next_: "run_step a (w, ps) = (w', ps')"
    by (cases "run_step a (w, ps)")
  have step: "notified ''daily-goal-achievement'' w' = notified ''daily-goal-achievement'' w
      \<and> celebrated ''daily'' w' = celebrated ''daily'' w
      \<and> localStorage w' ''lastDailyCelebration'' = Some (Text (toDateString d))"
  proof (cases a)
    case (Start c)
    let ?v = "w\<lparr>state := call_before c (state w)\<rparr>"
    from Cons.prems(1) Start have day: "toDateString (call_now c) = toDateString d"
      by (simp add: daily_ready_def same_day_toDateString)
    have marked:
      "localStorage ?v ''lastDailyCelebration'' = Some (Text (toDateString (call_now c)))"
      using Cons.prems(2) day by simp
    have w': "w' = snd (check_begin (call_notifier c) (call_now c) ?v)"
      using next_ Start fst_run_step_Start [of c w ps] by simp
    show ?thesis
      using check_begin_daily_marked [OF marked, of "call_notifier c"] day
      by (simp add: w')
  next
    case (Resume i)
    then show ?thesis
      using run_step_Resume_daily_track [of i w ps] next_ Cons.prems(2) by simp
  qed
  have rest: "daily_achieved_at_starts d as (w', ps')"
    using Cons.prems(1) next_ by (cases a) simp_all
  from Cons.IH [OF rest] step next_ show ?case
    by simp
qed

lemma schedule_daily_fires:
  assumes "daily_achieved_at_starts d sched (w, ps)"
    and "localStorage w ''lastDailyCelebration'' \<noteq> Some (Text (toDateString d))"
    and "\<exists>a \<in> set sched. is_start a"
  shows "notified ''daily-goal-achievement'' (fst (run_schedule sched (w, ps)))
           = notified ''daily-goal-achievement'' w + 1
       \<and> celebrated ''daily'' (fst (run_schedule sched (w, ps))) = celebrated ''daily'' w + 1
       \<and> localStorage (fst (run_schedule sched (w, ps))) ''lastDailyCelebration''
           = Some (Text (toDateString d))"
  using assms
proof (induction sched arbitrary: w ps)
  case Nil
  then show ?case by simp
next
  case (Cons a as)
  obtain w' ps' where next_: "run_step a (w, ps) = (w', ps')"
    by (cases "run_step a (w, ps)")
  have rest: "daily_achieved_at_starts d as (w', ps')"
    using Cons.prems(1) next_ by (cases a) simp_all
  show ?case
  proof (cases a)
    case (Start c)
    let ?v = "w\<lparr>state := call_before c (state w)\<rparr>"
    from Cons.prems(1) Start have ready: "daily_ready d c w"
      by simp
    then have day: "toDateString (call_now c) = toDateString d"
      by (simp add: daily_ready_def same_day_toDateString)
    from ready obtain dp mp g where st:
      "dailyProgress (state ?v) = Some dp" "is_achieved dp"
      "monthlyProgress (state ?v) = Some mp" "dailyGoal (state ?v) = Some g"
      by (auto simp: daily_ready_def split: option.splits)
    have fresh:
      "localStorage ?v ''lastDailyCelebration'' \<noteq> Some (Text (toDateString (call_now c)))"
      using Cons.prems(2) day by simp
    have w': "w' = snd (check_begin (call_notifier c) (call_now c) ?v)"
      using next_ Start fst_run_step_Start [of c w ps] by simp
    have first: "notified ''daily-goal-achievement'' w'
                   = notified ''daily-goal-achievement'' w + 1"
      "celebrated ''daily'' w' = celebrated ''daily'' w + 1"
      "localStorage w' ''lastDailyCelebration'' = Some (Text (toDateString d))"
      using check_begin_daily_fires [OF st fresh, of "call_notifier c"] day
      by (simp_all add: w')
    from schedule_daily_marked [OF rest first(3)] first next_ show ?thesis
      by simp
  next
    case (Resume i)
    have same: "notified ''daily-goal-achievement'' w' = notified ''daily-goal-achievement'' w"
      "celebrated ''daily'' w' = celebrated ''daily'' w"
      "localStorage w' ''lastDailyCelebration'' = localStorage w ''lastDailyCelebration''"
      using run_step_Resume_daily_track [of i w ps] next_ Resume by simp_all
    have fresh: "localStorage w' ''lastDailyCelebration'' \<noteq> Some (Text (toDateString d))"
      using same(3) Cons.prems(2) by simp
    have more: "\<exists>a \<in> set as. is_start a"
      using Cons.prems(3) Resume by simp
    from Cons.IH [OF rest fresh more] same next_ show ?thesis
      by simp
  qed
qed

lemma world_both_daily_run: "daily_achieved_throughout june1 [first_call, first_call] world_both"
  by code_simp

lemma world_both_monthly_run:
  "monthly_achieved_throughout june1 [first_call, first_call] world_both"
  by code_simp

text \<open>Progress, and the strings of the first of June.\<close>

lemma percentage_eq:
  "percentage a t = Some (if t > 0 then min (a / t * 100) 999 else 0)"
  by (simp add: percentage_def js_divide_def)

lemma toDateString_june1: "toDateString june1 = ''Sat Jun 01 2024''"
  by code_simp

lemma thisMonth_june1: "thisMonth june1 = ''2024-5''"
  by code_simp


lemma world_both_facts:
  "dailyProgress (state world_both) = Some daily_hit" "is_achieved daily_hit"
  "monthlyProgress (state world_both) = Some monthly_hit" "is_achieved monthly_hit"
  "dailyGoal (state world_both) = Some daily_june1"
  "monthlyGoal (state world_both) = Some monthly_june"
  "localStorage world_both = (\<lambda>k. None)"
  "events world_both = []"
  by (simp_all add: world_both_def world0_def tracking_def daily_hit_def monthly_hit_def
      mk_dailyProgress_def mk_monthlyProgress_def achieved_def daily_june1_def
      monthly_june_def window_goal_def)

text \<open>The calendar: the windows of the day and of the month, and the month before.\<close>


lemma days_in_month_bounds: "28 \<le> days_in_month y m" "days_in_month y m \<le> 31"
  by (simp_all add: days_in_month_def)

lemma roll_day_in_range:
  "1 \<le> d \<Longrightarrow> d \<le> int (days_in_month y m) \<Longrightarrow> roll_day y m d = (y, m, nat d)"
  by (simp add: roll_day.simps)

lemma roll_day_zero:
  "roll_day y m 0 =
     (fst (prev_month y m), snd (prev_month y m),
      days_in_month (fst (prev_month y m)) (snd (prev_month y m)))"
proof -
  have "1 \<le> int (days_in_month (fst (prev_month y m)) (snd (prev_month y m)))"
    using days_in_month_bounds(1) [of "fst (prev_month y m)" "snd (prev_month y m)"] by simp
  then show ?thesis
    by (subst roll_day.simps) (simp add: roll_day_in_range)
qed

lemma todayStart_eq:
  "on_calendar now \<Longrightarrow>
   todayStart now = now\<lparr>getHours := 0, getMinutes := 0, getSeconds := 0, getMilliseconds := 0\<rparr>"
  by (simp add: todayStart_def new_Date_def on_calendar_def roll_day_in_range)

lemma todayEnd_eq:
  "on_calendar now \<Longrightarrow>
   todayEnd now =
     now\<lparr>getHours := 23, getMinutes := 59, getSeconds := 59, getMilliseconds := 999\<rparr>"
  by (simp add: todayEnd_def new_Date_def on_calendar_def roll_day_in_range)

lemma monthStart_eq:
  "getMonth now < 12 \<Longrightarrow>
   monthStart now =
     now\<lparr>getDate := 1, getHours := 0, getMinutes := 0, getSeconds := 0, getMilliseconds := 0\<rparr>"
  using days_in_month_bounds(1) [of "getFullYear now" "getMonth now"]
  by (simp add: monthStart_def new_Date_def roll_day_in_range)

lemma next_month_carry:
  assumes "m < 12"
  shows "prev_month (y + (int m + 1) div 12) (nat ((int m + 1) mod 12)) = (y, m)"
proof (cases "m = 11")
  case True
  then show ?thesis by (simp add: prev_month_def)
next
  case False
  with assms have "(int m + 1) div 12 = 0" "(int m + 1) mod 12 = int m + 1"
    by simp_all
  then show ?thesis by (simp add: prev_month_def nat_add_distrib)
qed

lemma monthEnd_eq:
  "getMonth now < 12 \<Longrightarrow>
   monthEnd now =
     now\<lparr>getDate := days_in_month (getFullYear now) (getMonth now),
         getHours := 23, getMinutes := 59, getSeconds := 59, getMilliseconds := 999\<rparr>"
  by (simp add: monthEnd_def new_Date_def roll_day_zero next_month_carry)

lemma endOfMonth_getDate:
  "getMonth now < 12 \<Longrightarrow>
   getDate (new_Date (getFullYear now) (int (getMonth now) + 1) 0 0 0 0 0)
     = days_in_month (getFullYear now) (getMonth now)"
  by (simp add: new_Date_def roll_day_zero next_month_carry)

lemma lastMonth_eq:
  assumes "getMonth now < 12"
  shows "getFullYear (new_Date (getFullYear now) (int (getMonth now) - 1) 1 0 0 0 0)
           = fst (prev_month (getFullYear now) (getMonth now))"
    and "getMonth (new_Date (getFullYear now) (int (getMonth now) - 1) 1 0 0 0 0)
           = snd (prev_month (getFullYear now) (getMonth now))"
proof -
  have "roll_day (getFullYear now + (int (getMonth now) - 1) div 12)
          (nat ((int (getMonth now) - 1) mod 12)) 1
        = (fst (prev_month (getFullYear now) (getMonth now)),
           snd (prev_month (getFullYear now) (getMonth now)), 1)"
  proof (cases "getMonth now = 0")
    case True
    then show ?thesis
      using days_in_month_bounds(1) [of "getFullYear now - 1" 11]
      by (simp add: prev_month_def roll_day_in_range)
  next
    case False
    with assms have "(int (getMonth now) - 1) div 12 = 0"
      "(int (getMonth now) - 1) mod 12 = int (getMonth now) - 1"
      by simp_all
    then show ?thesis
      using False days_in_month_bounds(1) [of "getFullYear now" "getMonth now - 1"]
      by (simp add: prev_month_def roll_day_in_range nat_diff_distrib)
  qed
  then show "getFullYear (new_Date (getFullYear now) (int (getMonth now) - 1) 1 0 0 0 0)
           = fst (prev_month (getFullYear now) (getMonth now))"
    and "getMonth (new_Date (getFullYear now) (int (getMonth now) - 1) 1 0 0 0 0)
           = snd (prev_month (getFullYear now) (getMonth now))"
    by (simp_all add: new_Date_def)
qed

lemma today_window_ordered:
  "getTime (now\<lparr>getHours := 0, getMinutes := 0, getSeconds := 0, getMilliseconds := 0\<rparr>)
     \<le> getTime (now\<lparr>getHours := 23, getMinutes := 59, getSeconds := 59,
                      getMilliseconds := 999\<rparr>)"
  by (simp add: getTime_def day_number_def)

lemma month_window_ordered:
  "getTime (now\<lparr>getDate := 1, getHours := 0, getMinutes := 0, getSeconds := 0,
                 getMilliseconds := 0\<rparr>)
     \<le> getTime (now\<lparr>getDate := days_in_month (getFullYear now) (getMonth now),
                      getHours := 23, getMinutes := 59, getSeconds := 59,
                      getMilliseconds := 999\<rparr>)"
  using days_in_month_bounds(1) [of "getFullYear now" "getMonth now"]
  by (simp add: getTime_def day_number_def)

lemma isValid_overlap:
  assumes "period_start g = Some (ValidDate s)" and "period_end g = Some (ValidDate e)"
    and "getTime s \<le> getTime e" and "getTime lo \<le> getTime hi"
  shows "isValid g lo hi
         \<longleftrightarrow> (\<exists>t. getTime s \<le> t \<and> t \<le> getTime e \<and> getTime lo \<le> t \<and> t \<le> getTime hi)"
proof
  assume "isValid g lo hi"
  with assms have "getTime s \<le> getTime hi" "getTime lo \<le> getTime e"
    by (simp_all add: isValid_def)
  with assms(3,4) have "getTime s \<le> max (getTime s) (getTime lo)
      \<and> max (getTime s) (getTime lo) \<le> getTime e
      \<and> getTime lo \<le> max (getTime s) (getTime lo)
      \<and> max (getTime s) (getTime lo) \<le> getTime hi"
    by simp
  then show "\<exists>t. getTime s \<le> t \<and> t \<le> getTime e \<and> getTime lo \<le> t \<and> t \<le> getTime hi"
    by blast
next
  assume "\<exists>t. getTime s \<le> t \<and> t \<le> getTime e \<and> getTime lo \<le> t \<and> t \<le> getTime hi"
  then have "getTime s \<le> getTime hi" "getTime lo \<le> getTime e"
    by auto
  with assms show "isValid g lo hi"
    by (simp add: isValid_def)
qed

lemma isValid_unbounded:
  "period_start g = None \<or> period_end g = None \<Longrightarrow> isValid g lo hi"
  by (auto simp: isValid_def split: option.splits)

text \<open>Reconciliation: what an authenticated run resolves and what it records.\<close>



lemma carry_over_frame [simp]:
  "state (snd (carry_over sid cg now gs w)) = state w"
  "localStorage (snd (carry_over sid cg now gs w)) = localStorage w"
  by (simp_all add: carry_over_def split: option.splits sum.splits)

lemma carry_over_events:
  "events (snd (carry_over sid cg now gs w))
     = events w @ (if getDate now = 1
                   then (case find_lastMonthly now gs of
                           None \<Rightarrow> []
                         | Some lm \<Rightarrow> [CreateGoal (carry_request sid now lm)])
                   else [])"
  by (simp add: carry_over_def split: option.splits sum.splits)

lemma carry_over_value:
  "fst (carry_over sid cg now gs w)
     = (if getDate now = 1
        then (case find_lastMonthly now gs of
                None \<Rightarrow> None
              | Some lm \<Rightarrow>
                  (case cg (carry_request sid now lm) of Inl e \<Rightarrow> None | Inr c \<Rightarrow> Some c))
        else None)"
  by (simp add: carry_over_def split: option.splits sum.splits)

lemma save_backup_frame [simp]:
  "state (save_backup track sid g w) = state w"
  "events (save_backup track sid g w)
     = events w @ (case g of None \<Rightarrow> [] | Some x \<Rightarrow> [CacheSet (goal_key track sid)])"
  by (simp_all add: save_backup_def split: option.splits)

lemma goals_among_Parsed [simp]: "goals_among (map Parsed gs) = gs"
  by (induction gs) simp_all

lemma no_null_Parsed [simp]: "ParsedNull \<notin> set (map Parsed gs)"
  by auto

lemma reads_backup_iff: "reads_backup gg \<longleftrightarrow> (\<exists>e. gg = Inl e) \<or> gg = Inr []"
  by (cases gg) (auto simp: reads_backup_def apiSuccess_def fetched_def)

lemma existing_values_remote:
  "gg = Inr gs \<Longrightarrow> gs \<noteq> [] \<Longrightarrow> existing_values sid gg ls = map Parsed gs"
  by (simp add: existing_values_def reads_backup_iff fetched_def)




lemma loadGoals_dailyGoal:
  assumes "isAuthenticated auth" and "user auth = Some u" and "store_id u \<noteq> []"
    and "ParsedNull \<notin> set (existing_values (store_id u) gg (localStorage w))"
  shows "dailyGoal (state (loadGoals auth gg cg now w))
           = find_dailyGoal now (existingGoals_of (store_id u) gg (localStorage w))"
  using assms
  by (simp add: loadGoals_def Let_def load_existingGoals_def existingGoals_of_def
      split: option.splits)

lemma loadGoals_monthlyGoal:
  assumes "isAuthenticated auth" and "user auth = Some u" and "store_id u \<noteq> []"
    and "ParsedNull \<notin> set (existing_values (store_id u) gg (localStorage w))"
  shows "monthlyGoal (state (loadGoals auth gg cg now w))
           = (case find_monthlyGoal now (existingGoals_of (store_id u) gg (localStorage w)) of
                Some m \<Rightarrow> Some m
              | None \<Rightarrow>
                  if getDate now = 1
                  then (case find_lastMonthly now
                               (existingGoals_of (store_id u) gg (localStorage w)) of
                          None \<Rightarrow> None
                        | Some lm \<Rightarrow>
                            (case cg (carry_request (store_id u) now lm) of
                               Inl e \<Rightarrow> None | Inr c \<Rightarrow> Some c))
                  else None)"
  using assms
  by (simp add: loadGoals_def Let_def load_existingGoals_def existingGoals_of_def
      carry_over_value split: option.splits)


lemma loadGoals_since:
  assumes "isAuthenticated auth" and "user auth = Some u" and "store_id u \<noteq> []"
    and "ParsedNull \<notin> set (existing_values (store_id u) gg (localStorage w))"
  shows "since w (loadGoals auth gg cg now w)
           = [Dispatch (SET_LOADING True), GetGoals (store_id u)]
             @ (if reads_backup gg
                then [CacheGet (goal_key ''daily'' (store_id u)),
                      CacheGet (goal_key ''monthly'' (store_id u))]
                else [])
             @ (if find_monthlyGoal now (existingGoals_of (store_id u) gg (localStorage w)) = None
                   \<and> getDate now = 1
                   \<and> find_lastMonthly now (existingGoals_of (store_id u) gg (localStorage w))
                       \<noteq> None
                then [CreateGoal
                        (carry_request (store_id u) now
                           (the (find_lastMonthly now
                                   (existingGoals_of (store_id u) gg (localStorage w)))))]
                else [])
             @ (if dailyGoal (state (loadGoals auth gg cg now w)) \<noteq> None
                then [CacheSet (goal_key ''daily'' (store_id u))] else [])
             @ (if monthlyGoal (state (loadGoals auth gg cg now w)) \<noteq> None
                then [CacheSet (goal_key ''monthly'' (store_id u))] else [])
             @ [Dispatch (SET_DAILY_GOAL (dailyGoal (state (loadGoals auth gg cg now w)))),
                Dispatch (SET_MONTHLY_GOAL (monthlyGoal (state (loadGoals auth gg cg now w))))]
             @ (if dailyGoal (state (loadGoals auth gg cg now w)) = None
                   \<and> monthlyGoal (state (loadGoals auth gg cg now w)) \<noteq> None
                then [CreateGoal
                        (daily_request (store_id u) now
                           (the (monthlyGoal (state (loadGoals auth gg cg now w)))))]
                else [])
             @ [Dispatch (SET_LOADING False)]"
proof -
  let ?sid = "store_id u"
  let ?gs = "existingGoals_of ?sid gg (localStorage w)"
  let ?R = "loadGoals auth gg cg now w"
  let ?fetched = "snd (load_existingGoals ?sid gg (dispatch (SET_LOADING True) w))"
  define carried where
    "carried = (case find_monthlyGoal now ?gs of
                  None \<Rightarrow> carry_over ?sid cg now ?gs ?fetched
                | Some m \<Rightarrow> (Some m, ?fetched))"
  have carried_events: "events (snd carried)
           = events w @ [Dispatch (SET_LOADING True), GetGoals ?sid]
             @ (if reads_backup gg
                then [CacheGet (goal_key ''daily'' ?sid), CacheGet (goal_key ''monthly'' ?sid)]
                else [])
             @ (if find_monthlyGoal now ?gs = None \<and> getDate now = 1
                   \<and> find_lastMonthly now ?gs \<noteq> None
                then [CreateGoal (carry_request ?sid now (the (find_lastMonthly now ?gs)))]
                else [])"
    by (auto simp: carried_def load_existingGoals_def Let_def carry_over_events
        split: option.splits)
  have R: "?R = dispatch (SET_LOADING False)
      ((if find_dailyGoal now ?gs = None \<and> fst carried \<noteq> None
        then emit (CreateGoal (daily_request ?sid now (the (fst carried))))
        else (\<lambda>x. x))
       (dispatch (SET_MONTHLY_GOAL (fst carried))
          (dispatch (SET_DAILY_GOAL (find_dailyGoal now ?gs))
             (save_backup ''monthly'' ?sid (fst carried)
                (save_backup ''daily'' ?sid (find_dailyGoal now ?gs) (snd carried))))))"
    using assms
    by (simp add: loadGoals_def Let_def load_existingGoals_def existingGoals_of_def
        carried_def split: option.splits)
  have daily: "dailyGoal (state ?R) = find_dailyGoal now ?gs"
    by (simp add: R)
  have monthly: "monthlyGoal (state ?R) = fst carried"
    by (simp add: R)
  show ?thesis
    unfolding daily monthly
    by (simp add: R since_def carried_events split: option.splits)
qed


text \<open>The scenarios, evaluated.\<close>

lemma auth_S1_facts:
  "isAuthenticated auth_S1" "user auth_S1 = Some user_S1" "store_id user_S1 \<noteq> []"
  "store_id user_S1 = ''S1''"
  by (simp_all add: auth_S1_def user_S1_def)


lemmas calendar_defs =
  getTime_def day_number_def day_from_year_def days_before_month_def is_leap_year_def
  days_in_month_def at_time_def

lemma on_calendar_june1: "on_calendar june1"
  by (simp add: on_calendar_def june1_def at_time_def days_in_month_def)

lemma on_calendar_april15: "on_calendar april15"
  by (simp add: on_calendar_def april15_def at_time_def days_in_month_def)

lemma june1_windows:
  "todayStart june1 = at_time 2024 5 1 0 0 0 0"
  "todayEnd june1 = at_time 2024 5 1 23 59 59 999"
  "monthStart june1 = at_time 2024 5 1 0 0 0 0"
  "monthEnd june1 = at_time 2024 5 30 23 59 59 999"
  using on_calendar_june1
  by (simp_all add: todayStart_eq todayEnd_eq monthStart_eq monthEnd_eq on_calendar_def)
     (simp_all add: june1_def at_time_def days_in_month_def)

lemma april15_windows:
  "todayStart april15 = at_time 2024 3 15 0 0 0 0"
  "todayEnd april15 = at_time 2024 3 15 23 59 59 999"
  "monthStart april15 = at_time 2024 3 1 0 0 0 0"
  "monthEnd april15 = at_time 2024 3 30 23 59 59 999"
  using on_calendar_april15
  by (simp_all add: todayStart_eq todayEnd_eq monthStart_eq monthEnd_eq on_calendar_def)
     (simp_all add: april15_def at_time_def days_in_month_def)


lemma april15_monthly_found: "find_monthlyGoal april15 [goal_A, goal_B] = Some goal_B"
  by (simp add: find_monthlyGoal_def isValid_def april15_windows goal_A_def goal_B_def
      window_goal_def calendar_defs)

lemma april15_daily_found: "find_dailyGoal april15 [goal_A, goal_B] = None"
  by (simp add: find_dailyGoal_def goal_A_def goal_B_def window_goal_def)

lemma june1_may_not_current: "find_monthlyGoal june1 [monthly_may] = None"
  by (simp add: find_monthlyGoal_def isValid_def june1_windows monthly_may_def
      window_goal_def calendar_defs)


lemma june1_no_daily: "find_dailyGoal june1 [monthly_may] = None"
  by (simp add: find_dailyGoal_def monthly_may_def window_goal_def)

lemma june1_lastMonthly: "find_lastMonthly june1 [monthly_may] = Some monthly_may"
  using lastMonth_eq [of june1]
  by (simp add: find_lastMonthly_def starts_in_month_of_def monthly_may_def window_goal_def
      june1_def at_time_def prev_month_def)

lemma june1_carry_created:
  "store_creates (carry_request ''S1'' june1 monthly_may) = Inr created_june"
  by (simp add: store_creates_def carry_request_def june1_windows created_june_def
      monthly_may_def window_goal_def)

text \<open>The goals that a reconciliation asks the Goal Store to create.\<close>

lemma creates_loadGoals:
  assumes "isAuthenticated auth" and "user auth = Some u" and "store_id u \<noteq> []"
    and "ParsedNull \<notin> set (existing_values (store_id u) gg (localStorage w))"
  shows "filter (is_create ''monthly'') (since w (loadGoals auth gg cg now w))
           = (if find_monthlyGoal now (existingGoals_of (store_id u) gg (localStorage w)) = None
                 \<and> getDate now = 1
                 \<and> find_lastMonthly now (existingGoals_of (store_id u) gg (localStorage w))
                     \<noteq> None
              then [CreateGoal
                      (carry_request (store_id u) now
                         (the (find_lastMonthly now
                                 (existingGoals_of (store_id u) gg (localStorage w)))))]
              else [])"
    and "filter (is_create ''daily'') (since w (loadGoals auth gg cg now w))
           = (if dailyGoal (state (loadGoals auth gg cg now w)) = None
                 \<and> monthlyGoal (state (loadGoals auth gg cg now w)) \<noteq> None
              then [CreateGoal
                      (daily_request (store_id u) now
                         (the (monthlyGoal (state (loadGoals auth gg cg now w)))))]
              else [])"
  by (simp_all add: loadGoals_since [OF assms] carry_request_def daily_request_def)

lemma find_lastMonthly_iff:
  assumes "getMonth now < 12" and "find_monthlyGoal now gs = None"
  shows "(\<exists>lm. find_lastMonthly now gs = Some lm)
         \<longleftrightarrow> (\<exists>g \<in> set gs. goal_type g = ''monthly''
                \<and> (\<exists>s. period_start g = Some (ValidDate s)
                     \<and> getFullYear s = fst (prev_month (getFullYear now) (getMonth now))
                     \<and> getMonth s = snd (prev_month (getFullYear now) (getMonth now))))"
proof
  assume "\<exists>lm. find_lastMonthly now gs = Some lm"
  then obtain lm where "find_lastMonthly now gs = Some lm" ..
  then have "lm \<in> set gs" "goal_type lm = ''monthly''"
    "starts_in_month_of lm (new_Date (getFullYear now) (int (getMonth now) - 1) 1 0 0 0 0)"
    by (auto simp: find_lastMonthly_def find_Some_iff)
  then show "\<exists>g \<in> set gs. goal_type g = ''monthly''
                \<and> (\<exists>s. period_start g = Some (ValidDate s)
                     \<and> getFullYear s = fst (prev_month (getFullYear now) (getMonth now))
                     \<and> getMonth s = snd (prev_month (getFullYear now) (getMonth now)))"
    using lastMonth_eq [OF assms(1)]
    by (auto simp: starts_in_month_of_def split: option.splits parsed_date.splits)
next
  assume "\<exists>g \<in> set gs. goal_type g = ''monthly''
                \<and> (\<exists>s. period_start g = Some (ValidDate s)
                     \<and> getFullYear s = fst (prev_month (getFullYear now) (getMonth now))
                     \<and> getMonth s = snd (prev_month (getFullYear now) (getMonth now)))"
  then obtain g s where g: "g \<in> set gs" "goal_type g = ''monthly''"
    "period_start g = Some (ValidDate s)"
    "getFullYear s = fst (prev_month (getFullYear now) (getMonth now))"
    "getMonth s = snd (prev_month (getFullYear now) (getMonth now))"
    by blast
  from assms(2) g(1,2) have "\<not> isValid g (monthStart now) (monthEnd now)"
    by (auto simp: find_monthlyGoal_def find_None_iff)
  then have "period_end g \<noteq> None"
    by (auto simp: isValid_def split: option.splits)
  with g lastMonth_eq [OF assms(1)]
  have "goal_type g = ''monthly''
        \<and> starts_in_month_of g (new_Date (getFullYear now) (int (getMonth now) - 1) 1 0 0 0 0)"
    by (auto simp: starts_in_month_of_def)
  with g(1) have "find_lastMonthly now gs \<noteq> None"
    by (auto simp: find_lastMonthly_def find_None_iff)
  then show "\<exists>lm. find_lastMonthly now gs = Some lm"
    by auto
qed

lemma find_lastMonthly_Some:
  assumes "getMonth now < 12" and "find_lastMonthly now gs = Some lm"
  shows "lm \<in> set gs" and "goal_type lm = ''monthly''"
    and "\<exists>s. period_start lm = Some (ValidDate s)
           \<and> getFullYear s = fst (prev_month (getFullYear now) (getMonth now))
           \<and> getMonth s = snd (prev_month (getFullYear now) (getMonth now))"
proof -
  from assms(2) have *: "lm \<in> set gs" "goal_type lm = ''monthly''"
    "starts_in_month_of lm (new_Date (getFullYear now) (int (getMonth now) - 1) 1 0 0 0 0)"
    by (auto simp: find_lastMonthly_def find_Some_iff)
  then show "lm \<in> set gs" and "goal_type lm = ''monthly''"
    by simp_all
  from *(3) lastMonth_eq [OF assms(1)]
  show "\<exists>s. period_start lm = Some (ValidDate s)
           \<and> getFullYear s = fst (prev_month (getFullYear now) (getMonth now))
           \<and> getMonth s = snd (prev_month (getFullYear now) (getMonth now))"
    by (auto simp: starts_in_month_of_def split: option.splits parsed_date.splits)
qed

lemma ceiling_100000_30: "\<lceil>(100000::rat) / 30\<rceil> = 3334" "\<lceil>(10000::rat) / 3\<rceil> = 3334"
  by (rule ceiling_unique; simp)+

lemma june_candidates:
  "existingGoals_of ''S1'' (Inr [monthly_may]) (localStorage world0) = [monthly_may]"
  "ParsedNull \<notin> set (existing_values ''S1'' (Inr [monthly_may]) (localStorage world0))"
  by (simp_all add: existingGoals_of_def existing_values_remote)

lemma april_candidates:
  "existingGoals_of ''S1'' (Inr [goal_A, goal_B]) (localStorage world0) = [goal_A, goal_B]"
  "ParsedNull \<notin> set (existing_values ''S1'' (Inr [goal_A, goal_B]) (localStorage world0))"
  by (simp_all add: existingGoals_of_def existing_values_remote)

lemma june_reconciled_goals:
  "dailyGoal (state june_reconciled) = None"
  "monthlyGoal (state june_reconciled) = Some created_june"
  using loadGoals_dailyGoal [where gg = "Inr [monthly_may]" and cg = store_creates
        and now = june1 and w = world0, OF auth_S1_facts(1-3)]
    loadGoals_monthlyGoal [where gg = "Inr [monthly_may]" and cg = store_creates
        and now = june1 and w = world0, OF auth_S1_facts(1-3)]
  by (simp_all add: june_reconciled_def auth_S1_facts(4) june_candidates june1_no_daily
      june1_may_not_current june1_lastMonthly june1_carry_created)
     (simp add: june1_def at_time_def)

text \<open>
  Two invocations that overlap, in the session with both targets reached. The marker of
  the month is read on entry and tested after the daily notification was awaited: the
  invocation that is resumed last still holds the marker it read, and the month is
  celebrated a second time. When the same two calls follow one another, it is celebrated
  once.
\<close>

lemma world_both_schedule:
  "daily_achieved_at_starts june1 overlapping (world_both, [])"
  "\<exists>a \<in> set overlapping. is_start a"
  "localStorage world_both ''lastDailyCelebration'' \<noteq> Some (Text (toDateString june1))"
  by code_simp+

lemma overlapping_monthly_twice:
  "notified ''monthly-goal-achievement'' (fst (run_schedule overlapping (world_both, []))) = 2"
  "celebrated ''monthly'' (fst (run_schedule overlapping (world_both, []))) = 2"
  "notified ''monthly-goal-achievement'' (run_checks [first_call, first_call] world_both) = 1"
  by code_simp+






section \<open>The claims\<close>

subsection \<open>The backup is read when the store fails or lists nothing\<close>




subsection \<open>Achievements are celebrated once per period\<close>

text \<open>
  Claim C2, as the code has it. Take invocations of \<^verbatim>\<open>checkGoalAchievements\<close> on one
  calendar day, at the start of each of which both progress records and the daily goal are
  present and the daily progress is achieved, beginning with a daily marker that is not
  today's. Then the first invocation invokes the Notifier once for the daily track, sets
  \<open>lastCelebration\<close> once for it and writes the marker, and all the invocations together
  count one daily notification and one daily celebration and end with the same marker: no
  later one does anything for the daily track. This holds for calls that follow one
  another, and also when invocations overlap in any order, whatever is suspended at the
  beginning. For calls that follow one another, each ended before the next starts (which
  is the schedule \<open>sequential\<close>), the same holds for the monthly track within one
  month, when the monthly goal is present and the daily half of each call lets the monthly
  half run. The statement is per track: \<open>lastCelebration\<close> is one slot shared by both
  tracks, and a later call may still fill it for the other track.
\<close>

theorem checkGoalAchievements_once_per_period:
  "(daily_achieved_throughout d (c # cs) w
      \<and> localStorage w ''lastDailyCelebration'' \<noteq> Some (Text (toDateString d))
    \<longrightarrow> notified ''daily-goal-achievement'' (check_step c w)
          = notified ''daily-goal-achievement'' w + 1
      \<and> celebrated ''daily'' (check_step c w) = celebrated ''daily'' w + 1
      \<and> localStorage (check_step c w) ''lastDailyCelebration'' = Some (Text (toDateString d))
      \<and> notified ''daily-goal-achievement'' (run_checks (c # cs) w)
          = notified ''daily-goal-achievement'' w + 1
      \<and> celebrated ''daily'' (run_checks (c # cs) w) = celebrated ''daily'' w + 1
      \<and> localStorage (run_checks (c # cs) w) ''lastDailyCelebration''
          = Some (Text (toDateString d)))
   \<and> (daily_achieved_at_starts d (Start c # sched) (w, ps)
      \<and> localStorage w ''lastDailyCelebration'' \<noteq> Some (Text (toDateString d))
    \<longrightarrow> notified ''daily-goal-achievement'' (fst (run_step (Start c) (w, ps)))
          = notified ''daily-goal-achievement'' w + 1
      \<and> celebrated ''daily'' (fst (run_step (Start c) (w, ps))) = celebrated ''daily'' w + 1
      \<and> localStorage (fst (run_step (Start c) (w, ps))) ''lastDailyCelebration''
          = Some (Text (toDateString d))
      \<and> notified ''daily-goal-achievement'' (fst (run_schedule (Start c # sched) (w, ps)))
          = notified ''daily-goal-achievement'' w + 1
      \<and> celebrated ''daily'' (fst (run_schedule (Start c # sched) (w, ps)))
          = celebrated ''daily'' w + 1
      \<and> localStorage (fst (run_schedule (Start c # sched) (w, ps))) ''lastDailyCelebration''
          = Some (Text (toDateString d)))
   \<and> run_schedule (sequential (c # cs)) (w, []) = (run_checks (c # cs) w, [])
   \<and> (monthly_achieved_throughout d (c # cs) w
      \<and> localStorage w ''lastMonthlyCelebration'' \<noteq> Some (Text (thisMonth d))
    \<longrightarrow> notified ''monthly-goal-achievement'' (check_step c w)
          = notified ''monthly-goal-achievement'' w + 1
      \<and> celebrated ''monthly'' (check_step c w) = celebrated ''monthly'' w + 1
      \<and> localStorage (check_step c w) ''lastMonthlyCelebration'' = Some (Text (thisMonth d))
      \<and> notified ''monthly-goal-achievement'' (run_checks (c # cs) w)
          = notified ''monthly-goal-achievement'' w + 1
      \<and> celebrated ''monthly'' (run_checks (c # cs) w) = celebrated ''monthly'' w + 1
      \<and> localStorage (run_checks (c # cs) w) ''lastMonthlyCelebration''
          = Some (Text (thisMonth d)))"
proof (intro conjI impI)
  assume a: "daily_achieved_throughout d (c # cs) w
      \<and> localStorage w ''lastDailyCelebration'' \<noteq> Some (Text (toDateString d))"
  then have run: "daily_achieved_throughout d (c # cs) w"
    and fresh: "localStorage w ''lastDailyCelebration'' \<noteq> Some (Text (toDateString d))"
    by simp_all
  note first = step_daily_fires [OF run fresh]
  from run have rest: "daily_achieved_throughout d cs (check_step c w)"
    by simp
  note later = run_daily_marked [OF rest first(3)]
  show "notified ''daily-goal-achievement'' (check_step c w)
          = notified ''daily-goal-achievement'' w + 1"
    by (rule first(1))
  show "celebrated ''daily'' (check_step c w) = celebrated ''daily'' w + 1"
    by (rule first(2))
  show "localStorage (check_step c w) ''lastDailyCelebration'' = Some (Text (toDateString d))"
    by (rule first(3))
  show "notified ''daily-goal-achievement'' (run_checks (c # cs) w)
          = notified ''daily-goal-achievement'' w + 1"
    using later first(1) by simp
  show "celebrated ''daily'' (run_checks (c # cs) w) = celebrated ''daily'' w + 1"
    using later first(2) by simp
  show "localStorage (run_checks (c # cs) w) ''lastDailyCelebration''
          = Some (Text (toDateString d))"
    using later by simp
next
  assume a: "daily_achieved_at_starts d (Start c # sched) (w, ps)
      \<and> localStorage w ''lastDailyCelebration'' \<noteq> Some (Text (toDateString d))"
  then have run: "daily_achieved_at_starts d (Start c # sched) (w, ps)"
    and fresh: "localStorage w ''lastDailyCelebration'' \<noteq> Some (Text (toDateString d))"
    by simp_all
  from run have one: "daily_achieved_at_starts d [Start c] (w, ps)"
    by simp
  note first = schedule_daily_fires [OF one fresh, simplified]
  have more: "\<exists>a \<in> set (Start c # sched). is_start a"
    by simp
  note whole = schedule_daily_fires [OF run fresh more]
  show "notified ''daily-goal-achievement'' (fst (run_step (Start c) (w, ps)))
          = notified ''daily-goal-achievement'' w + 1"
    using first by simp
  show "celebrated ''daily'' (fst (run_step (Start c) (w, ps))) = celebrated ''daily'' w + 1"
    using first by simp
  show "localStorage (fst (run_step (Start c) (w, ps))) ''lastDailyCelebration''
          = Some (Text (toDateString d))"
    using first by simp
  show "notified ''daily-goal-achievement'' (fst (run_schedule (Start c # sched) (w, ps)))
          = notified ''daily-goal-achievement'' w + 1"
    using whole by blast
  show "celebrated ''daily'' (fst (run_schedule (Start c # sched) (w, ps)))
          = celebrated ''daily'' w + 1"
    using whole by blast
  show "localStorage (fst (run_schedule (Start c # sched) (w, ps))) ''lastDailyCelebration''
          = Some (Text (toDateString d))"
    using whole by blast
next
  show "run_schedule (sequential (c # cs)) (w, []) = (run_checks (c # cs) w, [])"
    by (rule run_schedule_sequential)
next
  assume a: "monthly_achieved_throughout d (c # cs) w
      \<and> localStorage w ''lastMonthlyCelebration'' \<noteq> Some (Text (thisMonth d))"
  then have run: "monthly_achieved_throughout d (c # cs) w"
    and fresh: "localStorage w ''lastMonthlyCelebration'' \<noteq> Some (Text (thisMonth d))"
    by simp_all
  note first = step_monthly_fires [OF run fresh]
  from run have rest: "monthly_achieved_throughout d cs (check_step c w)"
    by simp
  note later = run_monthly_marked [OF rest first(3)]
  show "notified ''monthly-goal-achievement'' (check_step c w)
          = notified ''monthly-goal-achievement'' w + 1"
    by (rule first(1))
  show "celebrated ''monthly'' (check_step c w) = celebrated ''monthly'' w + 1"
    by (rule first(2))
  show "localStorage (check_step c w) ''lastMonthlyCelebration'' = Some (Text (thisMonth d))"
    by (rule first(3))
  show "notified ''monthly-goal-achievement'' (run_checks (c # cs) w)
          = notified ''monthly-goal-achievement'' w + 1"
    using later first(1) by simp
  show "celebrated ''monthly'' (run_checks (c # cs) w) = celebrated ''monthly'' w + 1"
    using later first(2) by simp
  show "localStorage (run_checks (c # cs) w) ''lastMonthlyCelebration''
          = Some (Text (thisMonth d))"
    using later by simp
qed

theorem checkGoalAchievements_once_per_period_witness:
  "notified ''daily-goal-achievement'' (run_checks [first_call, first_call] world_both) = 1
   \<and> celebrated ''daily'' (run_checks [first_call, first_call] world_both) = 1
   \<and> notified ''monthly-goal-achievement'' (run_checks [first_call, first_call] world_both) = 1
   \<and> celebrated ''monthly'' (run_checks [first_call, first_call] world_both) = 1
   \<and> notified ''daily-goal-achievement'' (fst (run_schedule overlapping (world_both, []))) = 1
   \<and> celebrated ''daily'' (fst (run_schedule overlapping (world_both, []))) = 1
   \<and> localStorage (fst (run_schedule overlapping (world_both, []))) ''lastDailyCelebration''
       = Some (Text ''Sat Jun 01 2024'')"
  using checkGoalAchievements_once_per_period
      [where d = june1 and c = first_call and cs = "[first_call]" and w = world_both
         and sched = "[Start first_call, Resume 0]" and ps = "[]"]
    world_both_daily_run world_both_monthly_run world_both_schedule(1)
  by (simp add: overlapping_def world_both_facts(7,8) notified_def celebrated_def
      toDateString_june1)

text \<open>
  Claim C2 as stated fails in two ways. Not every later call leaves \<open>lastCelebration\<close>
  unchanged: on the first of June the first call celebrates the day; a progress update
  then brings the month over its target, and the second call of the same day, the daily
  progress still achieved, replaces the celebration of the day by that of the month. And
  the Notifier need not be invoked at all: while the monthly progress record is absent,
  the guard of the operation returns before the daily track is looked at, however often
  it is called with the daily progress achieved.
\<close>

theorem later_call_replaces_lastCelebration:
  "daily_achieved_throughout june1 [first_call, second_call] world_tracking
   \<and> lastCelebration (state (check_step first_call world_tracking))
       = Some (daily_celebration daily_june1 daily_hit june1)
   \<and> lastCelebration (state (check_step second_call (check_step first_call world_tracking)))
       = Some (monthly_celebration monthly_june monthly_hit june1)
   \<and> lastCelebration (state (run_checks [first_call, second_call] world_tracking))
       \<noteq> lastCelebration (state (check_step first_call world_tracking))
   \<and> dailyProgress (state world_daily_only) = Some daily_hit
   \<and> is_achieved daily_hit
   \<and> events (run_checks [first_call, first_call] world_daily_only) = []
   \<and> notified ''daily-goal-achievement'' (run_checks [first_call, first_call] world_daily_only)
       = 0"
  by code_simp

subsection \<open>Progress of a goal\<close>

text \<open>
  Claim C3, as the code has it. When \<^verbatim>\<open>updateGoalProgress\<close> passes its guard and both
  fetches succeed, each progress record holds the fetched total; its percentage is
  \<open>current / target * 100\<close> capped at 999 when the target is positive and 0 otherwise; it
  is achieved exactly when the target is positive and reached. The percentage is always a
  finite number (\<open>Some\<close>): no division by zero is performed. There is no lower clamp:
  the percentage lies in \<open>[0, 999]\<close> whenever the total is not negative.
\<close>

theorem updateGoalProgress_progress:
  assumes "isAuthenticated auth" and "user auth = Some u"
    and "dailyGoal (state w) = Some dg" and "monthlyGoal (state w) = Some mg"
    and "metrics ''today'' = Inr dm" and "metrics ''this_month'' = Inr mm"
  shows "\<exists>dp mp.
      dailyProgress (state (updateGoalProgress auth metrics t0 now w)) = Some dp
    \<and> monthlyProgress (state (updateGoalProgress auth metrics t0 now w)) = Some mp
    \<and> current_amount dp = totalSales_or_0 dm
    \<and> current_amount mp = totalSales_or_0 mm
    \<and> progress_percentage dp =
        Some (if target_amount dg > 0
              then min (current_amount dp / target_amount dg * 100) 999 else 0)
    \<and> progress_percentage mp =
        Some (if target_amount mg > 0
              then min (current_amount mp / target_amount mg * 100) 999 else 0)
    \<and> is_achieved dp = (target_amount dg > 0 \<and> current_amount dp \<ge> target_amount dg)
    \<and> is_achieved mp = (target_amount mg > 0 \<and> current_amount mp \<ge> target_amount mg)
    \<and> (target_amount dg > 0 \<and> current_amount dp \<ge> 0 \<longrightarrow>
          (\<exists>p. progress_percentage dp = Some p \<and> 0 \<le> p \<and> p \<le> 999))
    \<and> (target_amount mg > 0 \<and> current_amount mp \<ge> 0 \<longrightarrow>
          (\<exists>p. progress_percentage mp = Some p \<and> 0 \<le> p \<and> p \<le> 999))"
  using assms
  by (simp add: updateGoalProgress_def Let_def mk_dailyProgress_def mk_monthlyProgress_def
      percentage_eq achieved_def)

theorem updateGoalProgress_progress_witness:
  "(\<exists>dp mp.
      dailyProgress (state (updateGoalProgress auth_S1 sales_metrics june1 june1 world_goals))
        = Some dp
    \<and> monthlyProgress (state (updateGoalProgress auth_S1 sales_metrics june1 june1 world_goals))
        = Some mp
    \<and> current_amount dp = 4000 \<and> current_amount mp = 50000
    \<and> progress_percentage dp = Some (200000 / 1667) \<and> progress_percentage mp = Some 50
    \<and> is_achieved dp \<and> \<not> is_achieved mp)
   \<and> (\<exists>dp.
      dailyProgress
        (state (updateGoalProgress auth_S1 sales_metrics june1 june1 world_zero_target))
        = Some dp
    \<and> current_amount dp = 4000 \<and> progress_percentage dp = Some 0 \<and> \<not> is_achieved dp)"
proof -
  have auth: "isAuthenticated auth_S1" "user auth_S1 = Some user_S1"
    by (simp_all add: auth_S1_def)
  have goals: "dailyGoal (state world_goals) = Some daily_june1"
    "monthlyGoal (state world_goals) = Some monthly_june"
    by (simp_all add: world_goals_def)
  have zero: "dailyGoal (state world_zero_target) = Some zero_goal"
    "monthlyGoal (state world_zero_target) = Some monthly_june"
    by (simp_all add: world_zero_target_def)
  have sales: "sales_metrics ''today'' = Inr (Some 4000)"
    "sales_metrics ''this_month'' = Inr (Some 50000)"
    by (simp_all add: sales_metrics_def)
  from updateGoalProgress_progress [OF auth goals sales, of june1 june1]
  obtain dp mp where
    "dailyProgress (state (updateGoalProgress auth_S1 sales_metrics june1 june1 world_goals))
       = Some dp"
    "monthlyProgress (state (updateGoalProgress auth_S1 sales_metrics june1 june1 world_goals))
       = Some mp"
    "current_amount dp = 4000" "current_amount mp = 50000"
    "progress_percentage dp = Some (200000 / 1667)" "progress_percentage mp = Some 50"
    "is_achieved dp" "\<not> is_achieved mp"
    by (auto simp: totalSales_or_0_def daily_june1_def monthly_june_def window_goal_def)
  moreover from updateGoalProgress_progress [OF auth zero sales, of june1 june1]
  obtain dz where
    "dailyProgress
       (state (updateGoalProgress auth_S1 sales_metrics june1 june1 world_zero_target))
       = Some dz"
    "current_amount dz = 4000" "progress_percentage dz = Some 0" "\<not> is_achieved dz"
    by (auto simp: totalSales_or_0_def zero_goal_def window_goal_def)
  ultimately show ?thesis
    by blast
qed

text \<open>
  Claim C3 as stated fails on the lower bound: with a target of 3334 and a total of
  \<open>-50\<close> for the day, the percentage is negative, not clamped to 0.
\<close>

theorem negative_total_negative_percentage:
  "map_option progress_percentage
     (dailyProgress (state (updateGoalProgress auth_S1 refund_metrics june1 june1 world_goals)))
     = Some (Some (- (2500 / 1667)))
   \<and> map_option (target_amount \<circ> goal)
     (dailyProgress (state (updateGoalProgress auth_S1 refund_metrics june1 june1 world_goals)))
     = Some 3334"
  by code_simp

subsection \<open>The markers of the achievement check\<close>




subsection \<open>A notifier that fails\<close>

text \<open>
  Claim C5, as the code has it. When the daily track celebrates and the Notifier rejects
  the daily notification, the marker of the day and \<open>lastCelebration\<close> stay written
  (nothing is rolled back), the call itself rejects, and its monthly half does not run:
  the monthly marker is untouched and no monthly notification or celebration is made.
  The monthly achievement is checked by the next call, in which the daily track is
  silenced by its marker, whatever the notifier does then.
\<close>

theorem checkGoalAchievements_notifier_rejects:
  assumes "dailyProgress (state w) = Some dp" and "is_achieved dp"
    and "monthlyProgress (state w) = Some mp" and "dailyGoal (state w) = Some g"
    and "localStorage w ''lastDailyCelebration'' \<noteq> Some (Text (toDateString now))"
    and "\<not> n (daily_notification g dp)"
  shows "fst (checkGoalAchievements n now w) = Rejected
       \<and> localStorage (snd (checkGoalAchievements n now w)) ''lastDailyCelebration''
           = Some (Text (toDateString now))
       \<and> lastCelebration (state (snd (checkGoalAchievements n now w)))
           = Some (daily_celebration g dp now)
       \<and> localStorage (snd (checkGoalAchievements n now w)) ''lastMonthlyCelebration''
           = localStorage w ''lastMonthlyCelebration''
       \<and> notified ''monthly-goal-achievement'' (snd (checkGoalAchievements n now w))
           = notified ''monthly-goal-achievement'' w
       \<and> celebrated ''monthly'' (snd (checkGoalAchievements n now w))
           = celebrated ''monthly'' w
       \<and> (is_achieved mp \<and> monthlyGoal (state w) = Some mg
            \<and> localStorage w ''lastMonthlyCelebration'' \<noteq> Some (Text (thisMonth now))
          \<longrightarrow> notified ''monthly-goal-achievement''
                (snd (checkGoalAchievements n' now (snd (checkGoalAchievements n now w))))
                = notified ''monthly-goal-achievement'' w + 1
            \<and> notified ''daily-goal-achievement''
                (snd (checkGoalAchievements n' now (snd (checkGoalAchievements n now w))))
                = notified ''daily-goal-achievement'' w + 1
            \<and> localStorage
                (snd (checkGoalAchievements n' now (snd (checkGoalAchievements n now w))))
                ''lastMonthlyCelebration'' = Some (Text (thisMonth now)))"
proof -
  let ?w1 = "snd (checkGoalAchievements n now w)"
  have first: "checkGoalAchievements n now w =
      (Rejected,
       emit (ShowNotification (daily_notification g dp))
         (dispatch (SET_LAST_CELEBRATION (Some (daily_celebration g dp now)))
            (setItem ''lastDailyCelebration'' (Text (toDateString now))
               (if truthy (localStorage w ''lastDailyCelebration'')
                then dispatch CLEAR_LAST_CELEBRATION
                       (emit (CacheGet ''lastMonthlyCelebration'')
                          (emit (CacheGet ''lastDailyCelebration'') w))
                else emit (CacheGet ''lastMonthlyCelebration'')
                       (emit (CacheGet ''lastDailyCelebration'') w)))))"
    using assms by (simp add: checkGoalAchievements_def Let_def)
  have one: "fst (checkGoalAchievements n now w) = Rejected"
    "localStorage ?w1 ''lastDailyCelebration'' = Some (Text (toDateString now))"
    "lastCelebration (state ?w1) = Some (daily_celebration g dp now)"
    "localStorage ?w1 ''lastMonthlyCelebration'' = localStorage w ''lastMonthlyCelebration''"
    "notified ''monthly-goal-achievement'' ?w1 = notified ''monthly-goal-achievement'' w"
    "celebrated ''monthly'' ?w1 = celebrated ''monthly'' w"
    "notified ''daily-goal-achievement'' ?w1 = notified ''daily-goal-achievement'' w + 1"
    "dailyProgress (state ?w1) = Some dp" "monthlyProgress (state ?w1) = Some mp"
    "dailyGoal (state ?w1) = Some g" "monthlyGoal (state ?w1) = monthlyGoal (state w)"
    using assms
    by (simp_all add: first daily_notification_def daily_celebration_def)
  have two: "notified ''monthly-goal-achievement'' (snd (checkGoalAchievements n' now ?w1))
                = notified ''monthly-goal-achievement'' w + 1
            \<and> notified ''daily-goal-achievement'' (snd (checkGoalAchievements n' now ?w1))
                = notified ''daily-goal-achievement'' w + 1
            \<and> localStorage (snd (checkGoalAchievements n' now ?w1)) ''lastMonthlyCelebration''
                = Some (Text (thisMonth now))"
    if m: "is_achieved mp \<and> monthlyGoal (state w) = Some mg
            \<and> localStorage w ''lastMonthlyCelebration'' \<noteq> Some (Text (thisMonth now))"
  proof -
    have "checkGoalAchievements n' now ?w1
            = check_monthly n' now (state ?w1) mp (localStorage w ''lastMonthlyCelebration'')
                (emit (CacheGet ''lastMonthlyCelebration'')
                   (emit (CacheGet ''lastDailyCelebration'') ?w1))"
      using one by (simp add: checkGoalAchievements_def Let_def)
    with m one check_monthly_daily_track(1) [of n' now "state ?w1" mp
        "localStorage w ''lastMonthlyCelebration''"]
      check_monthly_fires [of mp "state ?w1" mg "localStorage w ''lastMonthlyCelebration''" now n']
    show ?thesis by simp
  qed
  from one two show ?thesis by blast
qed

theorem checkGoalAchievements_notifier_rejects_witness:
  "fst (checkGoalAchievements notifier_fails_daily june1 world_both) = Rejected
   \<and> localStorage (snd (checkGoalAchievements notifier_fails_daily june1 world_both))
       ''lastDailyCelebration'' = Some (Text ''Sat Jun 01 2024'')
   \<and> notified ''monthly-goal-achievement''
       (snd (checkGoalAchievements notifier_fails_daily june1 world_both)) = 0
   \<and> notified ''monthly-goal-achievement''
       (snd (checkGoalAchievements notifier_ok june1
          (snd (checkGoalAchievements notifier_fails_daily june1 world_both)))) = 1"
  using checkGoalAchievements_notifier_rejects [of world_both daily_hit monthly_hit daily_june1
      june1 notifier_fails_daily monthly_june notifier_ok]
  by (simp add: world_both_facts toDateString_june1 thisMonth_june1 notifier_fails_daily_def
      daily_notification_def notified_def)

text \<open>
  Claim C5 as stated fails: with both targets reached and a notifier that rejects the
  daily notification, the call ends after the daily notification; the monthly check does
  not execute.
\<close>

theorem rejected_notifier_skips_monthly_check:
  "is_achieved daily_hit \<and> is_achieved monthly_hit
   \<and> fst (checkGoalAchievements notifier_fails_daily june1 world_both) = Rejected
   \<and> localStorage (snd (checkGoalAchievements notifier_fails_daily june1 world_both))
       ''lastMonthlyCelebration'' = None
   \<and> events (snd (checkGoalAchievements notifier_fails_daily june1 world_both))
       = [CacheGet ''lastDailyCelebration'', CacheGet ''lastMonthlyCelebration'',
          CacheSet ''lastDailyCelebration'',
          Dispatch (SET_LAST_CELEBRATION (Some (daily_celebration daily_june1 daily_hit june1))),
          ShowNotification (daily_notification daily_june1 daily_hit)]"
  by code_simp

subsection \<open>The carry-over of the monthly goal\<close>

text \<open>
  Claim C6. Take an authenticated reconciliation that runs to its end (no value read from
  the backup is \<^verbatim>\<open>null\<close>) and in which no candidate is a monthly goal valid for the
  current month. It asks the Goal Store to create a monthly goal if and only if today is
  the first of the month and some candidate is a monthly goal whose period starts in the
  calendar month before. The goal asked for has the target of the
  first such candidate and the full window of the current month, from the first at
  00:00:00.000 to the last day at 23:59:59.999; the monthly goal resolves to what the
  store returns, and to \<^verbatim>\<open>null\<close> if the store fails. On any other day nothing is
  created and the monthly goal resolves to \<^verbatim>\<open>null\<close>.
\<close>

theorem loadGoals_carry_over:
  assumes "isAuthenticated auth" and "user auth = Some u" and "store_id u \<noteq> []"
    and "getMonth now < 12"
    and "find_monthlyGoal now (existingGoals_of (store_id u) getGoals (localStorage w)) = None"
    and "ParsedNull \<notin> set (existing_values (store_id u) getGoals (localStorage w))"
  shows "(filter (is_create ''monthly'') (since w (loadGoals auth getGoals createGoal now w)) \<noteq> []
          \<longleftrightarrow> getDate now = 1
              \<and> (\<exists>g \<in> set (existingGoals_of (store_id u) getGoals (localStorage w)).
                    goal_type g = ''monthly''
                    \<and> (\<exists>s. period_start g = Some (ValidDate s)
                         \<and> getFullYear s = fst (prev_month (getFullYear now) (getMonth now))
                         \<and> getMonth s = snd (prev_month (getFullYear now) (getMonth now)))))
       \<and> (\<forall>lm. getDate now = 1
              \<and> find_lastMonthly now (existingGoals_of (store_id u) getGoals (localStorage w))
                  = Some lm
            \<longrightarrow> lm \<in> set (existingGoals_of (store_id u) getGoals (localStorage w))
              \<and> goal_type lm = ''monthly''
              \<and> (\<exists>s. period_start lm = Some (ValidDate s)
                   \<and> getFullYear s = fst (prev_month (getFullYear now) (getMonth now))
                   \<and> getMonth s = snd (prev_month (getFullYear now) (getMonth now)))
              \<and> filter (is_create ''monthly'')
                   (since w (loadGoals auth getGoals createGoal now w))
                  = [CreateGoal
                       \<lparr>req_goal_type = ''monthly'',
                        req_target_amount = Some (target_amount lm),
                        req_period_start =
                          now\<lparr>getDate := 1, getHours := 0, getMinutes := 0, getSeconds := 0,
                              getMilliseconds := 0\<rparr>,
                        req_period_end =
                          now\<lparr>getDate := days_in_month (getFullYear now) (getMonth now),
                              getHours := 23, getMinutes := 59, getSeconds := 59,
                              getMilliseconds := 999\<rparr>,
                        req_is_active = True, req_store_id = store_id u\<rparr>]
              \<and> monthlyGoal (state (loadGoals auth getGoals createGoal now w))
                  = (case createGoal (carry_request (store_id u) now lm) of
                       Inl e \<Rightarrow> None | Inr created \<Rightarrow> Some created))
       \<and> (getDate now \<noteq> 1 \<longrightarrow>
            monthlyGoal (state (loadGoals auth getGoals createGoal now w)) = None
            \<and> filter (is_create ''monthly'')
                 (since w (loadGoals auth getGoals createGoal now w)) = [])"
proof -
  let ?gs = "existingGoals_of (store_id u) getGoals (localStorage w)"
  let ?R = "loadGoals auth getGoals createGoal now w"
  note auth = assms(1-3)
  have creates: "filter (is_create ''monthly'') (since w ?R)
      = (if getDate now = 1 \<and> find_lastMonthly now ?gs \<noteq> None
         then [CreateGoal (carry_request (store_id u) now (the (find_lastMonthly now ?gs)))]
         else [])"
    using creates_loadGoals(1) [OF auth assms(6), of createGoal now] assms(5) by simp
  have monthly: "monthlyGoal (state ?R)
      = (if getDate now = 1
         then (case find_lastMonthly now ?gs of
                 None \<Rightarrow> None
               | Some lm \<Rightarrow>
                   (case createGoal (carry_request (store_id u) now lm) of
                      Inl e \<Rightarrow> None | Inr c \<Rightarrow> Some c))
         else None)"
    using loadGoals_monthlyGoal [OF auth assms(6), of createGoal now] assms(5) by simp
  have first: "filter (is_create ''monthly'') (since w ?R) \<noteq> []
          \<longleftrightarrow> getDate now = 1
              \<and> (\<exists>g \<in> set ?gs.
                    goal_type g = ''monthly''
                    \<and> (\<exists>s. period_start g = Some (ValidDate s)
                         \<and> getFullYear s = fst (prev_month (getFullYear now) (getMonth now))
                         \<and> getMonth s = snd (prev_month (getFullYear now) (getMonth now))))"
    unfolding find_lastMonthly_iff [OF assms(4,5), symmetric]
    by (simp add: creates)
  have second: "lm \<in> set ?gs \<and> goal_type lm = ''monthly''
              \<and> (\<exists>s. period_start lm = Some (ValidDate s)
                   \<and> getFullYear s = fst (prev_month (getFullYear now) (getMonth now))
                   \<and> getMonth s = snd (prev_month (getFullYear now) (getMonth now)))
              \<and> filter (is_create ''monthly'') (since w ?R)
                  = [CreateGoal
                       \<lparr>req_goal_type = ''monthly'',
                        req_target_amount = Some (target_amount lm),
                        req_period_start =
                          now\<lparr>getDate := 1, getHours := 0, getMinutes := 0, getSeconds := 0,
                              getMilliseconds := 0\<rparr>,
                        req_period_end =
                          now\<lparr>getDate := days_in_month (getFullYear now) (getMonth now),
                              getHours := 23, getMinutes := 59, getSeconds := 59,
                              getMilliseconds := 999\<rparr>,
                        req_is_active = True, req_store_id = store_id u\<rparr>]
              \<and> monthlyGoal (state ?R)
                  = (case createGoal (carry_request (store_id u) now lm) of
                       Inl e \<Rightarrow> None | Inr created \<Rightarrow> Some created)"
    if "getDate now = 1 \<and> find_lastMonthly now ?gs = Some lm" for lm
    using that find_lastMonthly_Some [OF assms(4), of ?gs lm]
    by (simp add: creates monthly carry_request_def monthStart_eq [OF assms(4)]
        monthEnd_eq [OF assms(4)])
  have third: "getDate now \<noteq> 1 \<longrightarrow>
      monthlyGoal (state ?R) = None \<and> filter (is_create ''monthly'') (since w ?R) = []"
    by (simp add: creates monthly)
  from first second third show ?thesis
    by blast
qed

theorem loadGoals_carry_over_witness:
  "filter (is_create ''monthly'') (since world0 june_reconciled)
     = [CreateGoal
          \<lparr>req_goal_type = ''monthly'', req_target_amount = Some 100000,
           req_period_start = at_time 2024 5 1 0 0 0 0,
           req_period_end = at_time 2024 5 30 23 59 59 999,
           req_is_active = True, req_store_id = ''S1''\<rparr>]
   \<and> monthlyGoal (state june_reconciled) = Some created_june"
proof -
  have month: "getMonth june1 < 12"
    by (simp add: june1_def at_time_def)
  have none: "find_monthlyGoal june1
                (existingGoals_of (store_id user_S1) (Inr [monthly_may]) (localStorage world0))
              = None"
    by (simp add: auth_S1_facts(4) june_candidates(1) june1_may_not_current)
  have last: "getDate june1 = 1
      \<and> find_lastMonthly june1
           (existingGoals_of (store_id user_S1) (Inr [monthly_may]) (localStorage world0))
         = Some monthly_may"
    by (simp add: auth_S1_facts(4) june_candidates(1) june1_lastMonthly)
       (simp add: june1_def at_time_def)
  have run: "ParsedNull
      \<notin> set (existing_values (store_id user_S1) (Inr [monthly_may]) (localStorage world0))"
    by (simp add: auth_S1_facts(4) june_candidates)
  from loadGoals_carry_over [OF auth_S1_facts(1-3) month none run, of store_creates] last
  have "filter (is_create ''monthly'')
          (since world0 (loadGoals auth_S1 (Inr [monthly_may]) store_creates june1 world0))
        = [CreateGoal
             \<lparr>req_goal_type = ''monthly'',
              req_target_amount = Some (target_amount monthly_may),
              req_period_start =
                june1\<lparr>getDate := 1, getHours := 0, getMinutes := 0, getSeconds := 0,
                      getMilliseconds := 0\<rparr>,
              req_period_end =
                june1\<lparr>getDate := days_in_month (getFullYear june1) (getMonth june1),
                      getHours := 23, getMinutes := 59, getSeconds := 59,
                      getMilliseconds := 999\<rparr>,
              req_is_active = True, req_store_id = store_id user_S1\<rparr>]
      \<and> monthlyGoal (state (loadGoals auth_S1 (Inr [monthly_may]) store_creates june1 world0))
        = (case store_creates (carry_request (store_id user_S1) june1 monthly_may) of
             Inl e \<Rightarrow> None | Inr created \<Rightarrow> Some created)"
    by blast
  moreover have "june1\<lparr>getDate := 1, getHours := 0, getMinutes := 0, getSeconds := 0,
                  getMilliseconds := 0\<rparr> = at_time 2024 5 1 0 0 0 0"
    "june1\<lparr>getDate := days_in_month (getFullYear june1) (getMonth june1),
           getHours := 23, getMinutes := 59, getSeconds := 59, getMilliseconds := 999\<rparr>
       = at_time 2024 5 30 23 59 59 999"
    "target_amount monthly_may = 100000"
    by (simp_all add: june1_def at_time_def days_in_month_def monthly_may_def window_goal_def)
  ultimately show ?thesis
    by (simp add: june_reconciled_def auth_S1_facts(4) june1_carry_created)
qed

subsection \<open>The daily goal derived from the monthly goal\<close>

text \<open>
  Claim C7. When an authenticated reconciliation runs to its end (no value read from the
  backup is \<^verbatim>\<open>null\<close>) and resolves no daily goal but a monthly one, it asks the Goal
  Store for exactly one daily goal: its target is the monthly target divided by the days
  left in the month, today included and at least 1, rounded up; its window is today, from
  00:00:00.000 to 23:59:59.999. On the first of June 2024 a monthly target of 100000 gives
  a daily target of 3334.
\<close>

theorem loadGoals_derives_daily:
  assumes "isAuthenticated auth" and "user auth = Some u" and "store_id u \<noteq> []"
    and "on_calendar now"
    and "dailyGoal (state (loadGoals auth getGoals createGoal now w)) = None"
    and "monthlyGoal (state (loadGoals auth getGoals createGoal now w)) = Some m"
    and "ParsedNull \<notin> set (existing_values (store_id u) getGoals (localStorage w))"
  shows "filter (is_create ''daily'') (since w (loadGoals auth getGoals createGoal now w))
           = [CreateGoal
                \<lparr>req_goal_type = ''daily'',
                 req_target_amount =
                   Some (of_int \<lceil>target_amount m
                                  / of_int (max 1 (int (days_in_month (getFullYear now)
                                                          (getMonth now))
                                                   - int (getDate now) + 1))\<rceil>),
                 req_period_start =
                   now\<lparr>getHours := 0, getMinutes := 0, getSeconds := 0, getMilliseconds := 0\<rparr>,
                 req_period_end =
                   now\<lparr>getHours := 23, getMinutes := 59, getSeconds := 59,
                       getMilliseconds := 999\<rparr>,
                 req_is_active = True, req_store_id = store_id u\<rparr>]"
proof -
  from assms(4) have month: "getMonth now < 12"
    by (simp add: on_calendar_def)
  have divisor: "daysRemaining now
      = max 1 (int (days_in_month (getFullYear now) (getMonth now)) - int (getDate now) + 1)"
    by (simp add: daysRemaining_def endOfMonth_getDate [OF month])
  have "(of_int (daysRemaining now) :: rat) \<noteq> 0"
    by (simp add: daysRemaining_def)
  then have "suggestedDaily now m
      = Some (of_int \<lceil>target_amount m / of_int (daysRemaining now)\<rceil>)"
    by (simp add: suggestedDaily_def js_divide_def)
  then show ?thesis
    using creates_loadGoals(2) [OF assms(1-3,7), of createGoal now] assms(5,6)
    by (simp add: daily_request_def divisor todayStart_eq [OF assms(4)]
        todayEnd_eq [OF assms(4)])
qed

theorem loadGoals_derives_daily_witness:
  "filter (is_create ''daily'') (since world0 june_reconciled)
     = [CreateGoal
          \<lparr>req_goal_type = ''daily'', req_target_amount = Some 3334,
           req_period_start = at_time 2024 5 1 0 0 0 0,
           req_period_end = at_time 2024 5 1 23 59 59 999,
           req_is_active = True, req_store_id = ''S1''\<rparr>]"
proof -
  note goals = june_reconciled_goals [unfolded june_reconciled_def]
  have "june1\<lparr>getHours := 0, getMinutes := 0, getSeconds := 0, getMilliseconds := 0\<rparr>
          = at_time 2024 5 1 0 0 0 0"
    "june1\<lparr>getHours := 23, getMinutes := 59, getSeconds := 59, getMilliseconds := 999\<rparr>
          = at_time 2024 5 1 23 59 59 999"
    "(of_int \<lceil>target_amount created_june
                 / of_int (max 1 (int (days_in_month (getFullYear june1) (getMonth june1))
                                  - int (getDate june1) + 1))\<rceil> :: rat) = 3334"
    by (simp_all add: june1_def at_time_def days_in_month_def created_june_def
        ceiling_100000_30)
  moreover have "ParsedNull
      \<notin> set (existing_values (store_id user_S1) (Inr [monthly_may]) (localStorage world0))"
    by (simp add: auth_S1_facts(4) june_candidates)
  ultimately show ?thesis
    using loadGoals_derives_daily [OF auth_S1_facts(1-3) on_calendar_june1 goals]
    by (simp add: june_reconciled_def auth_S1_facts(4))
qed

subsection \<open>Selection by window\<close>

text \<open>
  Claim C8. An authenticated reconciliation that runs to its end (no value read from the
  backup is \<^verbatim>\<open>null\<close>) selects as daily goal the first candidate of type daily that is
  valid for the window of today, from 00:00:00.000 to 23:59:59.999, and as monthly goal
  the first candidate of type monthly that is valid for the window of the current month,
  when there is one. A goal that lacks a period bound is valid for every
  window; a goal with a well-formed period is valid for a window exactly when the two
  intervals share an instant. With the candidates A (March) and B (April) on the
  fifteenth of April, the monthly goal is B, not A.
\<close>

theorem loadGoals_selects_current_windows:
  assumes "isAuthenticated auth" and "user auth = Some u" and "store_id u \<noteq> []"
    and "on_calendar now"
    and "ParsedNull \<notin> set (existing_values (store_id u) getGoals (localStorage w))"
  shows "dailyGoal (state (loadGoals auth getGoals createGoal now w))
           = List.find
               (\<lambda>g. goal_type g = ''daily''
                  \<and> isValid g
                       (now\<lparr>getHours := 0, getMinutes := 0, getSeconds := 0,
                            getMilliseconds := 0\<rparr>)
                       (now\<lparr>getHours := 23, getMinutes := 59, getSeconds := 59,
                            getMilliseconds := 999\<rparr>))
               (existingGoals_of (store_id u) getGoals (localStorage w))
       \<and> (\<forall>m. List.find
                 (\<lambda>g. goal_type g = ''monthly''
                    \<and> isValid g
                         (now\<lparr>getDate := 1, getHours := 0, getMinutes := 0, getSeconds := 0,
                              getMilliseconds := 0\<rparr>)
                         (now\<lparr>getDate := days_in_month (getFullYear now) (getMonth now),
                              getHours := 23, getMinutes := 59, getSeconds := 59,
                              getMilliseconds := 999\<rparr>))
                 (existingGoals_of (store_id u) getGoals (localStorage w)) = Some m
              \<longrightarrow> monthlyGoal (state (loadGoals auth getGoals createGoal now w)) = Some m)
       \<and> (\<forall>g lo hi. period_start g = None \<or> period_end g = None \<longrightarrow> isValid g lo hi)
       \<and> (\<forall>g s e lo hi.
             period_start g = Some (ValidDate s) \<and> period_end g = Some (ValidDate e)
             \<and> getTime s \<le> getTime e \<and> getTime lo \<le> getTime hi
             \<longrightarrow> (isValid g lo hi
                  \<longleftrightarrow> (\<exists>t. getTime s \<le> t \<and> t \<le> getTime e
                           \<and> getTime lo \<le> t \<and> t \<le> getTime hi)))
       \<and> getTime (now\<lparr>getHours := 0, getMinutes := 0, getSeconds := 0, getMilliseconds := 0\<rparr>)
           \<le> getTime (now\<lparr>getHours := 23, getMinutes := 59, getSeconds := 59,
                            getMilliseconds := 999\<rparr>)
       \<and> getTime (now\<lparr>getDate := 1, getHours := 0, getMinutes := 0, getSeconds := 0,
                       getMilliseconds := 0\<rparr>)
           \<le> getTime (now\<lparr>getDate := days_in_month (getFullYear now) (getMonth now),
                            getHours := 23, getMinutes := 59, getSeconds := 59,
                            getMilliseconds := 999\<rparr>)"
proof -
  from assms(4) have month: "getMonth now < 12"
    by (simp add: on_calendar_def)
  have daily: "dailyGoal (state (loadGoals auth getGoals createGoal now w))
           = List.find
               (\<lambda>g. goal_type g = ''daily''
                  \<and> isValid g
                       (now\<lparr>getHours := 0, getMinutes := 0, getSeconds := 0,
                            getMilliseconds := 0\<rparr>)
                       (now\<lparr>getHours := 23, getMinutes := 59, getSeconds := 59,
                            getMilliseconds := 999\<rparr>))
               (existingGoals_of (store_id u) getGoals (localStorage w))"
    using loadGoals_dailyGoal [OF assms(1-3,5), of createGoal now]
    by (simp add: find_dailyGoal_def todayStart_eq [OF assms(4)] todayEnd_eq [OF assms(4)])
  have monthly: "monthlyGoal (state (loadGoals auth getGoals createGoal now w)) = Some m"
    if "List.find
          (\<lambda>g. goal_type g = ''monthly''
             \<and> isValid g
                  (now\<lparr>getDate := 1, getHours := 0, getMinutes := 0, getSeconds := 0,
                       getMilliseconds := 0\<rparr>)
                  (now\<lparr>getDate := days_in_month (getFullYear now) (getMonth now),
                       getHours := 23, getMinutes := 59, getSeconds := 59,
                       getMilliseconds := 999\<rparr>))
          (existingGoals_of (store_id u) getGoals (localStorage w)) = Some m" for m
    using that loadGoals_monthlyGoal [OF assms(1-3,5), of createGoal now]
    by (simp add: find_monthlyGoal_def monthStart_eq [OF month] monthEnd_eq [OF month])
  have unbounded: "period_start g = None \<or> period_end g = None \<longrightarrow> isValid g lo hi"
    for g lo hi
    using isValid_unbounded [of g lo hi] by blast
  have overlap: "period_start g = Some (ValidDate s) \<and> period_end g = Some (ValidDate e)
             \<and> getTime s \<le> getTime e \<and> getTime lo \<le> getTime hi
             \<longrightarrow> (isValid g lo hi
                  \<longleftrightarrow> (\<exists>t. getTime s \<le> t \<and> t \<le> getTime e
                           \<and> getTime lo \<le> t \<and> t \<le> getTime hi))"
    for g s e lo hi
    using isValid_overlap [of g s e lo hi] by blast
  from daily monthly unbounded overlap today_window_ordered [of now] month_window_ordered [of now]
  show ?thesis
    by blast
qed

theorem loadGoals_selects_current_windows_witness:
  "monthlyGoal (state april_reconciled) = Some goal_B
   \<and> monthlyGoal (state april_reconciled) \<noteq> Some goal_A
   \<and> dailyGoal (state april_reconciled) = None"
proof -
  have month: "getMonth april15 < 12"
    using on_calendar_april15 by (simp add: on_calendar_def)
  note found = april15_monthly_found
    [unfolded find_monthlyGoal_def monthStart_eq [OF month] monthEnd_eq [OF month]]
  note none = april15_daily_found
    [unfolded find_dailyGoal_def todayStart_eq [OF on_calendar_april15]
      todayEnd_eq [OF on_calendar_april15]]
  have run: "ParsedNull
      \<notin> set (existing_values (store_id user_S1) (Inr [goal_A, goal_B]) (localStorage world0))"
    by (simp add: auth_S1_facts(4) april_candidates)
  note selected = loadGoals_selects_current_windows
    [OF auth_S1_facts(1-3) on_calendar_april15 run, of store_creates,
      unfolded auth_S1_facts(4) april_candidates(1)]
  have "goal_A \<noteq> goal_B"
    by (simp add: goal_A_def goal_B_def window_goal_def)
  moreover from selected found
  have "monthlyGoal (state (loadGoals auth_S1 (Inr [goal_A, goal_B]) store_creates april15 world0))
          = Some goal_B"
    by blast
  moreover from selected none
  have "dailyGoal (state (loadGoals auth_S1 (Inr [goal_A, goal_B]) store_creates april15 world0))
          = None"
    by simp
  ultimately show ?thesis
    by (simp add: april_reconciled_def)
qed

subsection \<open>The rollover guard\<close>

text \<open>
  Claim C9, as the code has it. When the marker of the last daily celebration is a
  non-empty string other than today's, the guard clears \<open>lastCelebration\<close> and removes
  the marker; it resets the daily progress to the zero state (amount 0, percentage 0, not
  achieved, 24 hours left) when a daily goal is set, and leaves the daily progress alone
  when none is. When the marker is absent or is today's, state and storage are unchanged.
\<close>

theorem resetDailyGoalsForNewDay_rollover:
  "(localStorage w ''lastDailyCelebration'' = Some (Text m) \<and> m \<noteq> [] \<and> m \<noteq> toDateString now
    \<longrightarrow> lastCelebration (state (resetDailyGoalsForNewDay now w)) = None
      \<and> localStorage (resetDailyGoalsForNewDay now w)
          = (localStorage w)(''lastDailyCelebration'' := None)
      \<and> (\<forall>g. dailyGoal (state w) = Some g \<longrightarrow>
            dailyProgress (state (resetDailyGoalsForNewDay now w))
              = Some \<lparr>goal = g, current_amount = 0, progress_percentage = Some 0,
                      is_achieved = False, hours_remaining = Some 24, days_remaining = None\<rparr>)
      \<and> (dailyGoal (state w) = None \<longrightarrow>
            dailyProgress (state (resetDailyGoalsForNewDay now w)) = dailyProgress (state w))
      \<and> dailyGoal (state (resetDailyGoalsForNewDay now w)) = dailyGoal (state w)
      \<and> monthlyGoal (state (resetDailyGoalsForNewDay now w)) = monthlyGoal (state w)
      \<and> monthlyProgress (state (resetDailyGoalsForNewDay now w)) = monthlyProgress (state w))
   \<and> (localStorage w ''lastDailyCelebration'' = None
        \<or> localStorage w ''lastDailyCelebration'' = Some (Text (toDateString now))
    \<longrightarrow> state (resetDailyGoalsForNewDay now w) = state w
      \<and> localStorage (resetDailyGoalsForNewDay now w) = localStorage w)"
  by (auto simp: resetDailyGoalsForNewDay_def Let_def resetDailyProgress_def
      split: option.splits)

theorem resetDailyGoalsForNewDay_rollover_witness:
  "lastCelebration (state (resetDailyGoalsForNewDay june1 world_yesterday)) = None
   \<and> map_option current_amount (dailyProgress (state (resetDailyGoalsForNewDay june1 world_yesterday)))
       = Some 0
   \<and> localStorage (resetDailyGoalsForNewDay june1 world_yesterday) ''lastDailyCelebration'' = None
   \<and> state (resetDailyGoalsForNewDay june1 world0) = state world0"
  using resetDailyGoalsForNewDay_rollover [of world_yesterday "''Fri May 31 2024''" june1]
    resetDailyGoalsForNewDay_rollover [of world0 "[]" june1]
  by (simp add: world_yesterday_def yesterday_storage_def world0_def toDateString_june1)

text \<open>
  Claim C9 as stated fails when no daily goal is set: on the first of June, with the
  marker of the thirty-first of May, the stale daily progress of 500 survives the guard.
\<close>

theorem stale_progress_survives_rollover:
  "localStorage world_stale ''lastDailyCelebration'' = Some (Text ''Fri May 31 2024'')
   \<and> toDateString june1 = ''Sat Jun 01 2024''
   \<and> map_option current_amount (dailyProgress (state world_stale)) = Some 500
   \<and> map_option current_amount
       (dailyProgress (state (resetDailyGoalsForNewDay june1 world_stale))) = Some 500"
  by code_simp

subsection \<open>The guard of the progress update\<close>

text \<open>
  When the session is not authenticated, or has no user, or the daily goal or the monthly
  goal is \<^verbatim>\<open>null\<close>, \<^verbatim>\<open>updateGoalProgress\<close> returns at once: the Sales Metrics Source is
  not queried, nothing is read, and the state is left as it was. So it is in a session
  whose monthly goal is set and whose daily goal is not: no progress is computed for the
  monthly goal.
\<close>

lemma updateGoalProgress_guard:
  assumes "\<not> isAuthenticated auth \<or> user auth = None
           \<or> dailyGoal (state w) = None \<or> monthlyGoal (state w) = None"
  shows "updateGoalProgress auth metrics t0 now w = w"
  using assms by (auto simp: updateGoalProgress_def split: option.splits)

lemma updateGoalProgress_guard_monthly_only:
  "monthlyGoal (state world_monthly_only) = Some monthly_june
   \<and> dailyGoal (state world_monthly_only) = None
   \<and> events (updateGoalProgress auth_S1 sales_metrics june1 june1 world_monthly_only) = []
   \<and> state (updateGoalProgress auth_S1 sales_metrics june1 june1 world_monthly_only)
       = state world_monthly_only
   \<and> monthlyProgress (state (updateGoalProgress auth_S1 sales_metrics june1 june1
                                world_monthly_only))
       = Some monthly_short"
  using updateGoalProgress_guard [of auth_S1 world_monthly_only sales_metrics june1 june1]
  by (simp add: world_monthly_only_def world0_def initialState_def)

text \<open>
  Claim C10 does not hold of the code for a user without a store scope. The guard of
  \<^verbatim>\<open>updateGoalProgress\<close> tests the session, the user and the two goals, and not
  \<^verbatim>\<open>user.store_id\<close>, which \<^verbatim>\<open>loadGoals\<close> and the effect that loads the goals on mount both
  test. With an authenticated user whose store identifier is missing and both goals set,
  the update goes through: the Sales Metrics Source is queried twice with the missing
  store identifier, and both progress records are written.
\<close>

theorem no_store_scope_still_queries:
  "isAuthenticated auth_no_store
   \<and> map_option store_id (user auth_no_store) = Some []
   \<and> events (updateGoalProgress auth_no_store sales_metrics june1 june1 world_goals)
       = [CacheGet ''lastDailyCelebration'', GetDashboardAnalytics [] ''today'',
          GetDashboardAnalytics [] ''this_month'',
          Dispatch (SET_DAILY_PROGRESS (Some (mk_dailyProgress daily_june1 4000 june1))),
          Dispatch (SET_MONTHLY_PROGRESS (Some (mk_monthlyProgress monthly_june 50000 june1)))]
   \<and> dailyProgress (state world_goals) = None
   \<and> dailyProgress (state (updateGoalProgress auth_no_store sales_metrics june1 june1 world_goals))
       = Some (mk_dailyProgress daily_june1 4000 june1)
   \<and> monthlyProgress (state world_goals) = None
   \<and> monthlyProgress
       (state (updateGoalProgress auth_no_store sales_metrics june1 june1 world_goals))
       = Some (mk_monthlyProgress monthly_june 50000 june1)"
  by code_simp

end
